theory Spec2Isabelle
  imports Complex_Main
begin

section \<open>Common vocabulary of the telemetry agents\<close>

text \<open>
  Python floats are modelled as reals (no rounding error, no NaN, no infinities), a dict
  that is serialised to JSON as an association list in insertion order, and everything
  an agent does to its surroundings as an event appended to a chronological trace,
  stamped with the wall-clock time at which it starts.
  Log messages keep the literal text of the source's f-strings; the interpolated values
  and the pictographs are left out.
\<close>

datatype json = Num real | Str string | Obj "(string \<times> json) list"

datatype level = Debug | Info | Warning | Error

datatype event =
    Measure nat
  | Sleep real
  | Log level string
  | HttpPost string json
  | HttpGet string

text \<open>
  What one HTTP call of the \<open>requests\<close> session does: it returns a response with a status
  code, raises a \<open>requests.exceptions.RequestException\<close> (every transport failure of the
  library: connection error, timeout, ...), or raises something else (for a GET this
  includes a body that \<open>response.json()\<close> cannot decode).
\<close>

datatype http_result = Response nat | RequestException | OtherException

datatype exn = NameError | ValueError | UnexpectedError

text \<open>How the endless \<open>while True\<close> of an agent ends: by the operator's interrupt or by an
  exception that escapes the cycle body.\<close>

datatype stop = Interrupted | Crashed exn

fun field :: "string \<Rightarrow> json \<Rightarrow> json option" where
  "field k (Obj kvs) = map_of kvs k"
| "field k _ = None"

text \<open>
  One attempt of the sensor agent reads the two properties \<open>temperature\<close> and \<open>humidity\<close> of
  the device; each read raises or returns a value, which may be \<open>None\<close>.
\<close>

datatype 'a read = Raises | Returns "'a option"

type_synonym sample = "real read \<times> real read"

type_synonym dht11 = "nat \<Rightarrow> sample"

text \<open>
  What the host offers to one collection of the health monitor. \<open>None\<close> stands for the
  exception that the getter's \<open>try\<close> block raises (the file cannot be opened or its text is
  no integer, \<open>psutil\<close> raises, \<open>vcgencmd\<close> is missing or times out). A completed
  \<open>vcgencmd\<close> run is its return code and the number parsed from its output (\<open>None\<close>: the
  \<open>split\<close>, the index or the conversion raises).
\<close>

record sources =
  thermal_zone0 :: "int option"
  cpu_percent :: "real option"
  virtual_memory :: "real option"
  disk_usage :: "real option"
  net_io_counters :: "(nat \<times> nat) option"
  getloadavg :: "(real \<times> real \<times> real) option"
  boot_time :: "real option"
  measure_volts :: "(int \<times> real option) option"
  measure_clock :: "(int \<times> int option) option"

text \<open>
  The surroundings of a process. The first group is given and never changes:
  \<open>hardware\<close> is what \<open>adafruit_dht.DHT11(pin)\<close> gives (\<open>None\<close>: the constructor raises),
  \<open>metrics k\<close> what the host offers to the k-th acquisition, \<open>api k\<close> the outcome of the
  k-th HTTP call, \<open>rng k\<close> the k-th value of \<open>random.random()\<close>, \<open>latency k\<close> the time the
  k-th blocking operation takes beyond the time asked for, \<open>utcoffset\<close> the local
  time zone in seconds, \<open>isoformat\<close> the ISO-8601 text of an instant, \<open>euid\<close> the
  effective user id. The second group is state: the wall clock \<open>clock\<close> (what
  \<open>time.time()\<close> returns), the counters of acquisitions, HTTP calls, random draws and
  blocking operations so far, and the trace.
\<close>

record world =
  hardware :: "dht11 option"
  metrics :: "nat \<Rightarrow> sources"
  api :: "nat \<Rightarrow> http_result"
  rng :: "nat \<Rightarrow> real"
  latency :: "nat \<Rightarrow> real"
  utcoffset :: int
  isoformat :: "real \<Rightarrow> string"
  euid :: nat
  clock :: real
  reads :: nat
  requests :: nat
  draws :: nat
  ops :: nat
  trace :: "(real \<times> event) list"

definition emit :: "event \<Rightarrow> world \<Rightarrow> world" where
  "emit e w = w\<lparr>trace := trace w @ [(clock w, e)]\<rparr>"

definition logger :: "level \<Rightarrow> string \<Rightarrow> world \<Rightarrow> world" where
  "logger l m w = emit (Log l m) w"

text \<open>A blocking operation takes its own time.\<close>

definition elapse :: "world \<Rightarrow> world" where
  "elapse w = w\<lparr>clock := clock w + latency w (ops w), ops := Suc (ops w)\<rparr>"

text \<open>\<open>time.sleep(s)\<close> for \<open>s \<ge> 0\<close>: at least \<open>s\<close> seconds pass.\<close>

definition sleep :: "real \<Rightarrow> world \<Rightarrow> world" where
  "sleep s w = elapse ((emit (Sleep s) w)\<lparr>clock := clock w + s\<rparr>)"

text \<open>\<open>time.sleep\<close> of a number read from the command line: a negative one raises.\<close>

definition time_sleep :: "real \<Rightarrow> world \<Rightarrow> exn option \<times> world" where
  "time_sleep s w = (if s < 0 then (Some ValueError, w) else (None, sleep s w))"

text \<open>\<open>datetime.utcnow().isoformat() + 'Z'\<close> and \<open>datetime.now().hour\<close>.\<close>

definition utcnow_isoformat_Z :: "world \<Rightarrow> string" where
  "utcnow_isoformat_Z w = isoformat w (clock w) @ ''Z''"

definition now_hour :: "world \<Rightarrow> int" where
  "now_hour w = (\<lfloor>clock w\<rfloor> + utcoffset w) div 3600 mod 24"

text \<open>\<open>self.session.post(url, json=payload, ...)\<close> and \<open>self.session.get(url, ...)\<close>: the call
  is recorded and its outcome taken from the surroundings.\<close>

definition session_post :: "string \<Rightarrow> json \<Rightarrow> world \<Rightarrow> http_result \<times> world" where
  "session_post url payload w =
     (api w (requests w), elapse (emit (HttpPost url payload) (w\<lparr>requests := Suc (requests w)\<rparr>)))"

definition session_get :: "string \<Rightarrow> world \<Rightarrow> http_result \<times> world" where
  "session_get url w =
     (api w (requests w), elapse (emit (HttpGet url) (w\<lparr>requests := Suc (requests w)\<rparr>)))"

text \<open>Python's \<open>round(x, ndigits)\<close>: to the nearest multiple of \<open>10 ^ -ndigits\<close>, a tie to the
  even one; and \<open>x % m\<close> on floats for a positive \<open>m\<close>.\<close>

definition round_py :: "real \<Rightarrow> nat \<Rightarrow> real" where
  "round_py x ndigits =
     (let y = x * 10 ^ ndigits; f = \<lfloor>y\<rfloor>; d = y - of_int f
      in of_int (if d < 1 / 2 then f else if d > 1 / 2 then f + 1
                 else if even f then f else f + 1) / 10 ^ ndigits)"

definition mod_py :: "real \<Rightarrow> real \<Rightarrow> real" where
  "mod_py x m = x - m * of_int \<lfloor>x / m\<rfloor>"

text \<open>The objects: every class keeps the API URL and the device id; the sensor agent keeps
  the device handle, the other three the interval given on the command line.\<close>

record client =
  api_url :: string
  device_id :: string

record sensor = client +
  dht_device :: "dht11 option"

record monitor = client +
  interval :: int

definition location :: json where
  "location = Obj [(''latitude'', Num (- 235505 / 10000)), (''longitude'', Num (- 466333 / 10000))]"

section \<open>The sensor agent: pi4_dht11_sensor.py\<close>

record reading =
  temperature :: real
  humidity :: real
  timestamp :: string

definition MAX_RETRIES :: nat where
  "MAX_RETRIES = 3"

definition READING_INTERVAL :: real where
  "READING_INTERVAL = 2"

definition initialize_sensor :: "sensor \<Rightarrow> world \<Rightarrow> bool \<times> sensor \<times> world" where
  "initialize_sensor self w =
     (case hardware w of
        Some dev \<Rightarrow>
          (True, self\<lparr>dht_device := Some dev\<rparr>,
           logger Info ''DHT11 sensor initialized successfully'' w)
      | None \<Rightarrow> (False, self, logger Error ''Failed to initialize DHT11 sensor'' w))"

text \<open>The body of the \<open>for attempt in range(MAX_RETRIES)\<close> loop either returns from the
  function or goes on to the next attempt.\<close>

datatype 'a step = Continue | Return 'a

text \<open>The \<open>except Exception\<close> handler of the loop body.\<close>

definition on_exception :: "nat \<Rightarrow> world \<Rightarrow> world" where
  "on_exception attempt w =
     (let w1 = logger Error ''Error reading sensor'' w
      in if int attempt < int MAX_RETRIES - 1 then sleep 1 w1 else w1)"

text \<open>The checks under \<open># Validate readings\<close> and the return that follows them.\<close>

definition validate :: "real option \<Rightarrow> real option \<Rightarrow> world \<Rightarrow> reading step \<times> world" where
  "validate t h w =
     (case (t, h) of
        (Some temp, Some hum) \<Rightarrow>
          if temp < - 100 \<or> temp > 100
          then (Continue, logger Warning ''Temperature out of range'' w)
          else if hum < 0 \<or> hum > 100
          then (Continue, logger Warning ''Humidity out of range'' w)
          else (let w1 = logger Info ''Temp, Humidity'' w
                in (Return \<lparr>temperature = temp, humidity = hum,
                             timestamp = utcnow_isoformat_Z w1\<rparr>, w1))
      | _ \<Rightarrow> (Continue, sleep 1 (logger Warning ''Invalid readings'' w)))"

definition attempt_body :: "dht11 \<Rightarrow> nat \<Rightarrow> world \<Rightarrow> reading step \<times> world" where
  "attempt_body dev attempt w =
     (let w1 = elapse (emit (Measure attempt) (w\<lparr>reads := Suc (reads w)\<rparr>))
      in case dev (reads w) of
           (Raises, _) \<Rightarrow> (Continue, on_exception attempt w1)
         | (Returns t, Raises) \<Rightarrow> (Continue, on_exception attempt w1)
         | (Returns t, Returns h) \<Rightarrow> validate t h w1)"

fun read_loop :: "dht11 \<Rightarrow> nat list \<Rightarrow> world \<Rightarrow> reading option \<times> world" where
  "read_loop dev [] w =
     (None, logger Error ''Failed to read sensor data after all attempts'' w)"
| "read_loop dev (attempt # rest) w =
     (case attempt_body dev attempt w of
        (Return r, w') \<Rightarrow> (Some r, w')
      | (Continue, w') \<Rightarrow> read_loop dev rest w')"

definition read_sensor_data :: "sensor \<Rightarrow> world \<Rightarrow> reading option \<times> world" where
  "read_sensor_data self w =
     (case dht_device self of
        None \<Rightarrow> (None, logger Error ''Sensor not initialized'' w)
      | Some dev \<Rightarrow> read_loop dev [0..<MAX_RETRIES] w)"

definition sensor_payload :: "sensor \<Rightarrow> reading \<Rightarrow> json" where
  "sensor_payload self sensor_data =
     Obj [(''deviceId'', Str (device_id self)),
          (''temperature'', Num (temperature sensor_data)),
          (''humidity'', Num (humidity sensor_data)),
          (''timestamp'', Str (timestamp sensor_data)),
          (''gpioPin'', Num 4),
          (''sensorType'', Str ''DHT11''),
          (''location'', location)]"

text \<open>A reporter returns \<open>Inr True\<close>/\<open>Inr False\<close>, or \<open>Inl e\<close> when an exception leaves it.\<close>

definition send_to_api :: "sensor \<Rightarrow> reading option \<Rightarrow> world \<Rightarrow> (exn + bool) \<times> world" where
  "send_to_api self sensor_data w =
     (case sensor_data of
        None \<Rightarrow> (Inr False, w)
      | Some d \<Rightarrow>
          (case session_post (api_url self @ ''/dht11-sensor/readings'')
                  (sensor_payload self d) w of
             (Response status_code, w1) \<Rightarrow>
               if status_code = 201
               then (Inr True, logger Info ''Data sent to API successfully'' w1)
               else (Inr False, logger Error ''API request failed'' w1)
           | (RequestException, w1) \<Rightarrow>
               (Inr False, logger Error ''Failed to send data to API'' w1)
           | (OtherException, w1) \<Rightarrow> (Inl UnexpectedError, w1)))"

text \<open>One pass through the body of \<open>while True\<close>; \<open>Some e\<close> when exception \<open>e\<close> escapes it.\<close>

definition DHT11Sensor_cycle :: "sensor \<Rightarrow> world \<Rightarrow> exn option \<times> world" where
  "DHT11Sensor_cycle self w =
     (case read_sensor_data self w of
        (None, w1) \<Rightarrow> (None, sleep READING_INTERVAL w1)
      | (Some d, w1) \<Rightarrow>
          (case send_to_api self (Some d) w1 of
             (Inl e, w2) \<Rightarrow> (Some e, w2)
           | (Inr success, w2) \<Rightarrow>
               (None, sleep READING_INTERVAL
                  (if \<not> success
                   then logger Warning ''Failed to send data to API, but continuing...'' w2
                   else w2))))"

text \<open>The loop runs until the operator interrupts it; \<open>n\<close> is the number of cycles completed
  before the \<open>KeyboardInterrupt\<close> arrives.\<close>

fun DHT11Sensor_loop :: "sensor \<Rightarrow> nat \<Rightarrow> world \<Rightarrow> stop \<times> world" where
  "DHT11Sensor_loop self 0 w = (Interrupted, w)"
| "DHT11Sensor_loop self (Suc n) w =
     (case DHT11Sensor_cycle self w of
        (Some e, w') \<Rightarrow> (Crashed e, w')
      | (None, w') \<Rightarrow> DHT11Sensor_loop self n w')"

definition DHT11Sensor_run :: "sensor \<Rightarrow> nat \<Rightarrow> world \<Rightarrow> world" where
  "DHT11Sensor_run self n w =
     (case initialize_sensor self (logger Info ''Starting DHT11 sensor monitoring...'' w) of
        (False, self', w1) \<Rightarrow> logger Error ''Failed to initialize sensor. Exiting.'' w1
      | (True, self', w1) \<Rightarrow>
          (let w2 = logger Info ''Reading interval''
                      (logger Info ''Device ID''
                         (logger Info ''Monitoring started. Sending data to'' w1))
           in case DHT11Sensor_loop self' n w2 of
                (Interrupted, w3) \<Rightarrow>
                  logger Info ''DHT11 sensor monitoring stopped''
                    (logger Info ''Monitoring stopped by user'' w3)
              | (Crashed e, w3) \<Rightarrow>
                  logger Info ''DHT11 sensor monitoring stopped''
                    (logger Error ''Unexpected error'' w3)))"

text \<open>\<open>main\<close> gives the exit status of the process: \<open>sys.exit(1)\<close> when not root, and the
  status 0 of a script whose \<open>main()\<close> returns otherwise.\<close>

definition DHT11Sensor_main :: "nat \<Rightarrow> world \<Rightarrow> nat \<times> world" where
  "DHT11Sensor_main n w =
     (if euid w \<noteq> 0
      then (1, logger Error ''This script must be run as root (sudo) for GPIO access'' w)
      else (0, DHT11Sensor_run \<lparr>api_url = ''http://localhost:3000'', device_id = ''pi4-dht11-001'',
                           dht_device = None\<rparr> n w))"

section \<open>The host agent: pi4_health_monitor.py\<close>

definition MONITORING_INTERVAL :: int where
  "MONITORING_INTERVAL = 30"

text \<open>Python's truth value of what a collector hands over: \<open>None\<close>, an empty dict, an empty
  string and zero are false.\<close>

fun truthy :: "json option \<Rightarrow> bool" where
  "truthy None = False"
| "truthy (Some (Obj kvs)) = (kvs \<noteq> [])"
| "truthy (Some (Str s)) = (s \<noteq> [])"
| "truthy (Some (Num x)) = (x \<noteq> 0)"

text \<open>Running one statement after another, unless an exception is on its way.\<close>

definition and_then :: "exn option \<times> world \<Rightarrow> (world \<Rightarrow> exn option \<times> world) \<Rightarrow> exn option \<times> world" where
  "and_then r f = (case r of (Some e, w) \<Rightarrow> (Some e, w) | (None, w) \<Rightarrow> f w)"

definition get_cpu_temperature :: "sources \<Rightarrow> world \<Rightarrow> real \<times> world" where
  "get_cpu_temperature src w =
     (case thermal_zone0 src of
        Some temp \<Rightarrow> (real_of_int temp / 1000, w)
      | None \<Rightarrow> (0, logger Error ''Error reading CPU temperature'' w))"

text \<open>\<open>psutil.cpu_percent(interval=1)\<close> blocks for the second it measures over.\<close>

definition get_cpu_usage :: "sources \<Rightarrow> world \<Rightarrow> real \<times> world" where
  "get_cpu_usage src w =
     (case cpu_percent src of
        Some percent \<Rightarrow> (percent, elapse (w\<lparr>clock := clock w + 1\<rparr>))
      | None \<Rightarrow> (0, logger Error ''Error reading CPU usage'' w))"

definition get_memory_usage :: "sources \<Rightarrow> world \<Rightarrow> real \<times> world" where
  "get_memory_usage src w =
     (case virtual_memory src of
        Some percent \<Rightarrow> (percent, w)
      | None \<Rightarrow> (0, logger Error ''Error reading memory usage'' w))"

definition get_disk_usage :: "sources \<Rightarrow> world \<Rightarrow> real \<times> world" where
  "get_disk_usage src w =
     (case disk_usage src of
        Some percent \<Rightarrow> (percent, w)
      | None \<Rightarrow> (0, logger Error ''Error reading disk usage'' w))"

text \<open>The dict \<open>{'upload': .., 'download': ..}\<close> is the pair of its two values, the dict of
  the three load averages the triple.\<close>

definition get_network_usage :: "sources \<Rightarrow> world \<Rightarrow> (real \<times> real) \<times> world" where
  "get_network_usage src w =
     (case net_io_counters src of
        Some (bytes_sent, bytes_recv) \<Rightarrow>
          ((real bytes_sent / 1024 / 1024, real bytes_recv / 1024 / 1024), w)
      | None \<Rightarrow> ((0, 0), logger Error ''Error reading network usage'' w))"

definition get_system_load :: "sources \<Rightarrow> world \<Rightarrow> (real \<times> real \<times> real) \<times> world" where
  "get_system_load src w =
     (case getloadavg src of
        Some (l1, l5, l15) \<Rightarrow> ((l1, l5, l15), w)
      | None \<Rightarrow> ((0, 0, 0), logger Error ''Error reading system load'' w))"

definition get_uptime :: "sources \<Rightarrow> world \<Rightarrow> real \<times> world" where
  "get_uptime src w =
     (case boot_time src of
        Some booted \<Rightarrow> (clock w - booted, w)
      | None \<Rightarrow> (0, logger Error ''Error reading uptime'' w))"

definition get_cpu_voltage :: "sources \<Rightarrow> world \<Rightarrow> real option \<times> world" where
  "get_cpu_voltage src w =
     (case measure_volts src of
        None \<Rightarrow> (None, logger Debug ''Could not read CPU voltage'' w)
      | Some (returncode, parsed) \<Rightarrow>
          if returncode = 0
          then (case parsed of
                  Some voltage \<Rightarrow> (Some voltage, w)
                | None \<Rightarrow> (None, logger Debug ''Could not read CPU voltage'' w))
          else (None, w))"

definition get_cpu_frequency :: "sources \<Rightarrow> world \<Rightarrow> real option \<times> world" where
  "get_cpu_frequency src w =
     (case measure_clock src of
        None \<Rightarrow> (None, logger Debug ''Could not read CPU frequency'' w)
      | Some (returncode, parsed) \<Rightarrow>
          if returncode = 0
          then (case parsed of
                  Some hz \<Rightarrow> (Some (real_of_int hz / 1000000), w)
                | None \<Rightarrow> (None, logger Debug ''Could not read CPU frequency'' w))
          else (None, w))"

text \<open>No statement of the \<open>try\<close> block of \<open>collect_health_data\<close> raises in this model, so its
  handler, which returns \<open>None\<close>, is never taken.\<close>

definition collect_health_data :: "monitor \<Rightarrow> world \<Rightarrow> json option \<times> world" where
  "collect_health_data self w =
     (let src = metrics w (reads w);
          w0 = w\<lparr>reads := Suc (reads w)\<rparr>;
          (cpu_temp, w1) = get_cpu_temperature src w0;
          (cpu_usage, w2) = get_cpu_usage src w1;
          (memory_usage, w3) = get_memory_usage src w2;
          (disk, w4) = get_disk_usage src w3;
          ((upload, download), w5) = get_network_usage src w4;
          ((load1, load5, load15), w6) = get_system_load src w5;
          (uptime, w7) = get_uptime src w6;
          (voltage, w8) = get_cpu_voltage src w7;
          (frequency, w9) = get_cpu_frequency src w8;
          health_data =
            [(''deviceId'', Str (device_id self)),
             (''cpuTemperature'', Num (round_py cpu_temp 2)),
             (''cpuUsage'', Num (round_py cpu_usage 2)),
             (''memoryUsage'', Num (round_py memory_usage 2)),
             (''diskUsage'', Num (round_py disk 2)),
             (''networkUpload'', Num (round_py upload 2)),
             (''networkDownload'', Num (round_py download 2)),
             (''uptime'', Num (round_py uptime 2)),
             (''loadAverage1m'', Num (round_py load1 2)),
             (''loadAverage5m'', Num (round_py load5 2)),
             (''loadAverage15m'', Num (round_py load15 2)),
             (''timestamp'', Str (utcnow_isoformat_Z w9)),
             (''location'', location)];
          health_data1 =
            (case voltage of
               Some v \<Rightarrow> health_data @ [(''voltage'', Num (round_py v 3))]
             | None \<Rightarrow> health_data);
          health_data2 =
            (case frequency of
               Some f \<Rightarrow> health_data1 @ [(''frequency'', Num (round_py f 0))]
             | None \<Rightarrow> health_data1)
      in (Some (Obj health_data2), logger Info ''Health data collected'' w9))"

definition send_health_data :: "monitor \<Rightarrow> json option \<Rightarrow> world \<Rightarrow> (exn + bool) \<times> world" where
  "send_health_data self health_data w =
     (case health_data of
        None \<Rightarrow> (Inr False, w)
      | Some payload \<Rightarrow>
          if \<not> truthy (Some payload) then (Inr False, w)
          else (case session_post (api_url self @ ''/pi-health/readings'') payload w of
                  (Response status_code, w1) \<Rightarrow>
                    if status_code = 201
                    then (Inr True, logger Info ''Health data sent to API successfully'' w1)
                    else (Inr False, logger Error ''API request failed'' w1)
                | (RequestException, w1) \<Rightarrow>
                    (Inr False, logger Error ''Failed to send health data to API'' w1)
                | (OtherException, w1) \<Rightarrow> (Inl UnexpectedError, w1)))"

text \<open>\<open>test_api_connection\<close> is the same in the three classes that have it, up to the path
  of the health probe.\<close>

definition test_api_connection :: "string \<Rightarrow> 'a client_scheme \<Rightarrow> world \<Rightarrow> (exn + bool) \<times> world" where
  "test_api_connection path self w =
     (case session_get (api_url self @ path) w of
        (Response status_code, w1) \<Rightarrow>
          if status_code = 200
          then (Inr True, logger Info ''API connection successful'' w1)
          else (Inr False, logger Error ''API health check failed'' w1)
      | (RequestException, w1) \<Rightarrow> (Inr False, logger Error ''Cannot connect to API'' w1)
      | (OtherException, w1) \<Rightarrow> (Inl UnexpectedError, w1))"

text \<open>
  The sidecar queries share one shape: a GET of a path that ends in the device id, an
  info line on status 200, a warning on another status, an error line on a
  \<open>RequestException\<close>. No caller uses what they return, so the model gives only the
  exception that leaves them, if any.
\<close>

definition sidecar_get :: "string \<Rightarrow> string \<Rightarrow> string \<Rightarrow> string \<Rightarrow> world \<Rightarrow> exn option \<times> world" where
  "sidecar_get url ok bad failed w =
     (case session_get url w of
        (Response status_code, w1) \<Rightarrow>
          if status_code = 200 then (None, logger Info ok w1)
          else (None, logger Warning bad w1)
      | (RequestException, w1) \<Rightarrow> (None, logger Error failed w1)
      | (OtherException, w1) \<Rightarrow> (Some UnexpectedError, w1))"

definition get_device_status :: "'a client_scheme \<Rightarrow> world \<Rightarrow> exn option \<times> world" where
  "get_device_status self w =
     sidecar_get (api_url self @ ''/pi-health/status/'' @ device_id self)
       ''Device status'' ''Could not get device status'' ''Failed to get device status'' w"

definition get_recommendations :: "'a client_scheme \<Rightarrow> world \<Rightarrow> exn option \<times> world" where
  "get_recommendations self w =
     sidecar_get (api_url self @ ''/pi-health/recommendations/'' @ device_id self)
       ''System recommendations'' ''Could not get recommendations''
       ''Failed to get recommendations'' w"

text \<open>The statements of the loop body before the sleep, and the whole body.\<close>

definition PiHealthMonitor_report :: "monitor \<Rightarrow> world \<Rightarrow> exn option \<times> world" where
  "PiHealthMonitor_report self w =
     (case collect_health_data self w of
        (health_data, w1) \<Rightarrow>
          if truthy health_data
          then (case send_health_data self health_data w1 of
                  (Inl e, w2) \<Rightarrow> (Some e, w2)
                | (Inr success, w2) \<Rightarrow>
                    if success
                    then (if mod_py (clock w2) 300 < real_of_int (interval self)
                          then and_then (get_device_status self w2) (get_recommendations self)
                          else (None, w2))
                    else (None, logger Warning
                            ''Failed to send health data to API, but continuing...'' w2))
          else (None, w1))"

definition PiHealthMonitor_cycle :: "monitor \<Rightarrow> world \<Rightarrow> exn option \<times> world" where
  "PiHealthMonitor_cycle self w =
     and_then (PiHealthMonitor_report self w) (time_sleep (real_of_int (interval self)))"

fun PiHealthMonitor_loop :: "monitor \<Rightarrow> nat \<Rightarrow> world \<Rightarrow> stop \<times> world" where
  "PiHealthMonitor_loop self 0 w = (Interrupted, w)"
| "PiHealthMonitor_loop self (Suc n) w =
     (case PiHealthMonitor_cycle self w of
        (Some e, w') \<Rightarrow> (Crashed e, w')
      | (None, w') \<Rightarrow> PiHealthMonitor_loop self n w')"

text \<open>\<open>run\<close> gives \<open>Some e\<close> when an exception leaves it: one raised before the \<open>try\<close>.\<close>

definition PiHealthMonitor_run :: "monitor \<Rightarrow> nat \<Rightarrow> world \<Rightarrow> exn option \<times> world" where
  "PiHealthMonitor_run self n w =
     (let w0 = logger Info ''Monitoring interval''
                 (logger Info ''Device ID''
                    (logger Info ''API URL''
                       (logger Info ''Starting Raspberry Pi 4 health monitoring...'' w)))
      in case test_api_connection ''/pi-health/health'' self w0 of
           (Inl e, w1) \<Rightarrow> (Some e, w1)
         | (Inr False, w1) \<Rightarrow> (None, logger Error ''Cannot connect to API. Exiting.'' w1)
         | (Inr True, w1) \<Rightarrow>
             and_then (get_device_status self w1) (\<lambda>w2.
             and_then (get_recommendations self w2) (\<lambda>w3.
               case PiHealthMonitor_loop self n w3 of
                 (Interrupted, w4) \<Rightarrow>
                   (None, logger Info ''Health monitoring stopped''
                            (logger Info ''Health monitoring stopped by user'' w4))
               | (Crashed e, w4) \<Rightarrow>
                   (None, logger Info ''Health monitoring stopped''
                            (logger Error ''Unexpected error'' w4)))))"

text \<open>The exit status of a script: 0 when \<open>main()\<close> returns, 1 when an exception leaves it.\<close>

definition exit_status :: "exn option \<times> world \<Rightarrow> nat \<times> world" where
  "exit_status r = (case r of (None, w) \<Rightarrow> (0, w) | (Some e, w) \<Rightarrow> (1, w))"

definition PiHealthMonitor_main :: "monitor \<Rightarrow> nat \<Rightarrow> world \<Rightarrow> nat \<times> world" where
  "PiHealthMonitor_main args n w =
     exit_status
       (PiHealthMonitor_run args n
          (if euid w \<noteq> 0
           then logger Warning ''This script should be run as root for full system access'' w
           else w))"

section \<open>The random source\<close>

text \<open>\<open>random.random()\<close> and \<open>random.uniform(a, b)\<close>, which is \<open>a + (b - a) * random()\<close>.\<close>

definition random_random :: "world \<Rightarrow> real \<times> world" where
  "random_random w = (rng w (draws w), w\<lparr>draws := Suc (draws w)\<rparr>)"

definition uniform :: "real \<Rightarrow> real \<Rightarrow> world \<Rightarrow> real \<times> world" where
  "uniform a b w = (case random_random w of (u, w') \<Rightarrow> (a + (b - a) * u, w'))"

section \<open>The sensor simulator: test_dht11_integration.py\<close>

text \<open>
  The names bound in the module's global namespace once the module body has run: its
  imports, \<open>logger\<close>, the class and \<open>main\<close>. The statement \<open>import math\<close> stands in the body
  of \<open>main\<close> and binds a local name of \<open>main\<close>.
\<close>

definition module_globals :: "string list" where
  "module_globals =
     [''requests'', ''json'', ''time'', ''random'', ''argparse'', ''logging'', ''datetime'',
      ''sys'', ''logger'', ''DHT11Simulator'', ''main'']"

definition main_locals :: "string list" where
  "main_locals = [''parser'', ''args'', ''math'', ''simulator'']"

text \<open>
  A name that a method neither assigns nor takes as a parameter is looked up in the
  globals \<open>g\<close> of its module (no builtin is called \<open>math\<close>). The first statement to use
  \<open>math\<close> follows the read of the clock and precedes every draw.
\<close>

definition generate_realistic_data :: "string list \<Rightarrow> world \<Rightarrow> (exn + real \<times> real) \<times> world" where
  "generate_realistic_data g w =
     (let base_temp = 22;
          base_humidity = 45;
          hour = real_of_int (now_hour w)
      in if ''math'' \<notin> set g then (Inl NameError, w)
         else
           (let temp_variation = 3 * sin ((hour - 6) * pi / 12);
                humidity_variation = - 10 * sin ((hour - 6) * pi / 12);
                (temp_noise, w1) = uniform (- 0.5) 0.5 w;
                (humidity_noise, w2) = uniform (- 1) 1 w1;
                temperature = base_temp + temp_variation + temp_noise;
                humidity = base_humidity + humidity_variation + humidity_noise;
                temperature1 = max (- 10) (min 50 temperature);
                humidity1 = max 20 (min 80 humidity)
            in (Inr (round_py temperature1 1, round_py humidity1 1), w2)))"

definition send_data :: "monitor \<Rightarrow> real \<Rightarrow> real \<Rightarrow> world \<Rightarrow> (exn + bool) \<times> world" where
  "send_data self temp hum w =
     (let payload = Obj [(''deviceId'', Str (device_id self)),
                         (''temperature'', Num temp),
                         (''humidity'', Num hum),
                         (''timestamp'', Str (utcnow_isoformat_Z w)),
                         (''gpioPin'', Num 4),
                         (''sensorType'', Str ''DHT11''),
                         (''location'', location)]
      in case session_post (api_url self @ ''/dht11-sensor/readings'') payload w of
           (Response status_code, w1) \<Rightarrow>
             if status_code = 201
             then (Inr True, logger Info ''Data sent successfully'' w1)
             else (Inr False, logger Error ''API request failed'' w1)
         | (RequestException, w1) \<Rightarrow> (Inr False, logger Error ''Failed to send data to API'' w1)
         | (OtherException, w1) \<Rightarrow> (Inl UnexpectedError, w1))"

definition get_latest_reading :: "monitor \<Rightarrow> world \<Rightarrow> exn option \<times> world" where
  "get_latest_reading self w =
     sidecar_get (api_url self @ ''/dht11-sensor/readings/latest/'' @ device_id self)
       ''Latest reading'' ''Could not get latest reading'' ''Failed to get latest reading'' w"

definition get_stats :: "monitor \<Rightarrow> world \<Rightarrow> exn option \<times> world" where
  "get_stats self w =
     sidecar_get (api_url self @ ''/dht11-sensor/stats/'' @ device_id self @ ''?hours=1'')
       ''Stats'' ''Could not get stats'' ''Failed to get stats'' w"

definition DHT11Simulator_report :: "monitor \<Rightarrow> world \<Rightarrow> exn option \<times> world" where
  "DHT11Simulator_report self w =
     (case generate_realistic_data module_globals w of
        (Inl e, w1) \<Rightarrow> (Some e, w1)
      | (Inr (temp, hum), w1) \<Rightarrow>
          (case send_data self temp hum w1 of
             (Inl e, w2) \<Rightarrow> (Some e, w2)
           | (Inr success, w2) \<Rightarrow>
               if success
               then (case random_random w2 of
                       (u, w3) \<Rightarrow>
                         if u < 0.1
                         then and_then (get_latest_reading self w3) (get_stats self)
                         else (None, w3))
               else (None, w2)))"

definition DHT11Simulator_cycle :: "monitor \<Rightarrow> world \<Rightarrow> exn option \<times> world" where
  "DHT11Simulator_cycle self w =
     and_then (DHT11Simulator_report self w) (time_sleep (real_of_int (interval self)))"

fun DHT11Simulator_loop :: "monitor \<Rightarrow> nat \<Rightarrow> world \<Rightarrow> stop \<times> world" where
  "DHT11Simulator_loop self 0 w = (Interrupted, w)"
| "DHT11Simulator_loop self (Suc n) w =
     (case DHT11Simulator_cycle self w of
        (Some e, w') \<Rightarrow> (Crashed e, w')
      | (None, w') \<Rightarrow> DHT11Simulator_loop self n w')"

definition DHT11Simulator_run :: "monitor \<Rightarrow> nat \<Rightarrow> world \<Rightarrow> exn option \<times> world" where
  "DHT11Simulator_run self n w =
     (let w0 = logger Info ''Interval''
                 (logger Info ''Device ID''
                    (logger Info ''API URL''
                       (logger Info ''Starting DHT11 sensor simulation...'' w)))
      in case test_api_connection ''/dht11-sensor/health'' self w0 of
           (Inl e, w1) \<Rightarrow> (Some e, w1)
         | (Inr False, w1) \<Rightarrow> (None, logger Error ''Cannot connect to API. Exiting.'' w1)
         | (Inr True, w1) \<Rightarrow>
             and_then (get_stats self w1) (\<lambda>w2.
               case DHT11Simulator_loop self n w2 of
                 (Interrupted, w3) \<Rightarrow> (None, logger Info ''Simulation stopped by user'' w3)
               | (Crashed e, w3) \<Rightarrow> (None, logger Error ''Unexpected error'' w3)))"

definition DHT11Simulator_main :: "monitor \<Rightarrow> nat \<Rightarrow> world \<Rightarrow> nat \<times> world" where
  "DHT11Simulator_main args n w = exit_status (DHT11Simulator_run args n w)"

section \<open>The host simulator: test_pi_health_integration.py\<close>

text \<open>This module imports \<open>math\<close> at its top, so the name resolves.\<close>

definition generate_realistic_health_data :: "monitor \<Rightarrow> world \<Rightarrow> json \<times> world" where
  "generate_realistic_health_data self w =
     (let base_cpu_temp = 45;
          base_cpu_usage = 30;
          base_memory_usage = 50;
          base_disk_usage = 60;
          hour = real_of_int (now_hour w);
          temp_variation = 10 * sin ((hour - 6) * pi / 12);
          usage_variation = 20 * sin ((hour - 8) * pi / 12);
          (temp_noise, w1) = uniform (- 2) 2 w;
          (usage_noise, w2) = uniform (- 5) 5 w1;
          cpu_temperature = base_cpu_temp + temp_variation + temp_noise;
          cpu_usage = base_cpu_usage + usage_variation + usage_noise;
          (memory_noise, w3) = uniform (- 3) 3 w2;
          memory_usage = base_memory_usage + (usage_variation * 0.8) + memory_noise;
          (disk_noise, w4) = uniform (- 2) 2 w3;
          disk = base_disk_usage + disk_noise;
          cpu_temperature1 = max 20 (min 85 cpu_temperature);
          cpu_usage1 = max 5 (min 95 cpu_usage);
          memory_usage1 = max 20 (min 90 memory_usage);
          disk1 = max 40 (min 95 disk);
          (load_noise_1m, w5) = uniform (- 0.5) 0.5 w4;
          load_1m = max 0.1 (cpu_usage1 / 100 * 2 + load_noise_1m);
          (load_noise_5m, w6) = uniform (- 0.2) 0.2 w5;
          load_5m = load_1m * 0.8 + load_noise_5m;
          (load_noise_15m, w7) = uniform (- 0.1) 0.1 w6;
          load_15m = load_5m * 0.9 + load_noise_15m;
          (network_upload, w8) = uniform 0 10 w7;
          (network_download, w9) = uniform 0 20 w8;
          (uptime_noise, w10) = uniform (- 3600) 3600 w9;
          uptime = clock w10 + uptime_noise;
          (voltage_noise, w11) = uniform (- 0.2) 0.2 w10;
          voltage = 4.8 + voltage_noise;
          (frequency_noise, w12) = uniform (- 100) 100 w11;
          frequency = 1400 + frequency_noise
      in (Obj [(''deviceId'', Str (device_id self)),
               (''cpuTemperature'', Num (round_py cpu_temperature1 2)),
               (''cpuUsage'', Num (round_py cpu_usage1 2)),
               (''memoryUsage'', Num (round_py memory_usage1 2)),
               (''diskUsage'', Num (round_py disk1 2)),
               (''networkUpload'', Num (round_py network_upload 2)),
               (''networkDownload'', Num (round_py network_download 2)),
               (''uptime'', Num (round_py uptime 2)),
               (''loadAverage1m'', Num (round_py load_1m 2)),
               (''loadAverage5m'', Num (round_py load_5m 2)),
               (''loadAverage15m'', Num (round_py load_15m 2)),
               (''voltage'', Num (round_py voltage 3)),
               (''frequency'', Num (round_py frequency 0)),
               (''timestamp'', Str (utcnow_isoformat_Z w12)),
               (''location'', location)], w12))"

definition PiHealthSimulator_send_health_data :: "monitor \<Rightarrow> json \<Rightarrow> world \<Rightarrow> (exn + bool) \<times> world" where
  "PiHealthSimulator_send_health_data self health_data w =
     (case session_post (api_url self @ ''/pi-health/readings'') health_data w of
        (Response status_code, w1) \<Rightarrow>
          if status_code = 201
          then (Inr True, logger Info ''Health data sent successfully'' w1)
          else (Inr False, logger Error ''API request failed'' w1)
      | (RequestException, w1) \<Rightarrow>
          (Inr False, logger Error ''Failed to send health data to API'' w1)
      | (OtherException, w1) \<Rightarrow> (Inl UnexpectedError, w1))"

definition get_critical_alerts :: "monitor \<Rightarrow> world \<Rightarrow> exn option \<times> world" where
  "get_critical_alerts self w =
     sidecar_get (api_url self @ ''/pi-health/alerts/critical'')
       ''Found critical alerts'' ''Could not get critical alerts''
       ''Failed to get critical alerts'' w"

definition PiHealthSimulator_report :: "monitor \<Rightarrow> world \<Rightarrow> exn option \<times> world" where
  "PiHealthSimulator_report self w =
     (case generate_realistic_health_data self w of
        (health_data, w1) \<Rightarrow>
          (case PiHealthSimulator_send_health_data self health_data w1 of
             (Inl e, w2) \<Rightarrow> (Some e, w2)
           | (Inr success, w2) \<Rightarrow>
               if success
               then (case random_random w2 of
                       (u, w3) \<Rightarrow>
                         if u < 0.1
                         then and_then (get_device_status self w3) (\<lambda>w4.
                              and_then (get_recommendations self w4) (get_critical_alerts self))
                         else (None, w3))
               else (None, w2)))"

definition PiHealthSimulator_cycle :: "monitor \<Rightarrow> world \<Rightarrow> exn option \<times> world" where
  "PiHealthSimulator_cycle self w =
     and_then (PiHealthSimulator_report self w) (time_sleep (real_of_int (interval self)))"

fun PiHealthSimulator_loop :: "monitor \<Rightarrow> nat \<Rightarrow> world \<Rightarrow> stop \<times> world" where
  "PiHealthSimulator_loop self 0 w = (Interrupted, w)"
| "PiHealthSimulator_loop self (Suc n) w =
     (case PiHealthSimulator_cycle self w of
        (Some e, w') \<Rightarrow> (Crashed e, w')
      | (None, w') \<Rightarrow> PiHealthSimulator_loop self n w')"

definition PiHealthSimulator_run :: "monitor \<Rightarrow> nat \<Rightarrow> world \<Rightarrow> exn option \<times> world" where
  "PiHealthSimulator_run self n w =
     (let w0 = logger Info ''Interval''
                 (logger Info ''Device ID''
                    (logger Info ''API URL''
                       (logger Info ''Starting Pi health simulation...'' w)))
      in case test_api_connection ''/pi-health/health'' self w0 of
           (Inl e, w1) \<Rightarrow> (Some e, w1)
         | (Inr False, w1) \<Rightarrow> (None, logger Error ''Cannot connect to API. Exiting.'' w1)
         | (Inr True, w1) \<Rightarrow>
             and_then (get_device_status self w1) (\<lambda>w2.
             and_then (get_recommendations self w2) (\<lambda>w3.
               case PiHealthSimulator_loop self n w3 of
                 (Interrupted, w4) \<Rightarrow>
                   (None, logger Info ''Health simulation stopped by user'' w4)
               | (Crashed e, w4) \<Rightarrow> (None, logger Error ''Unexpected error'' w4))))"

definition PiHealthSimulator_main :: "monitor \<Rightarrow> nat \<Rightarrow> world \<Rightarrow> nat \<times> world" where
  "PiHealthSimulator_main args n w = exit_status (PiHealthSimulator_run args n w)"

section \<open>Vocabulary of the properties\<close>

text \<open>The declared ranges of a sensor reading, on a reading and on a posted payload.\<close>

definition in_range :: "reading \<Rightarrow> bool" where
  "in_range r =
     (- 100 \<le> temperature r \<and> temperature r \<le> 100 \<and> 0 \<le> humidity r \<and> humidity r \<le> 100)"

definition reportable :: "json \<Rightarrow> bool" where
  "reportable p =
     (case (field ''temperature'' p, field ''humidity'' p) of
        (Some (Num t), Some (Num h)) \<Rightarrow> - 100 \<le> t \<and> t \<le> 100 \<and> 0 \<le> h \<and> h \<le> 100
      | _ \<Rightarrow> False)"

fun transmits_reportable :: "real \<times> event \<Rightarrow> bool" where
  "transmits_reportable (t, HttpPost url p) = reportable p"
| "transmits_reportable _ = True"

text \<open>A sample that passes the checks of the sensor agent.\<close>

fun usable :: "sample \<Rightarrow> bool" where
  "usable (Returns (Some t), Returns (Some h)) =
     (- 100 \<le> t \<and> t \<le> 100 \<and> 0 \<le> h \<and> h \<le> 100)"
| "usable _ = False"

text \<open>Concrete surroundings and objects for the examples: a host on which every source
  fails, an API that accepts everything, a clock that starts at zero.\<close>

definition failing :: sources where
  "failing = \<lparr>thermal_zone0 = None, cpu_percent = None, virtual_memory = None,
               disk_usage = None, net_io_counters = None, getloadavg = None,
               boot_time = None, measure_volts = None, measure_clock = None\<rparr>"

definition calm :: world where
  "calm = \<lparr>hardware = None, metrics = (\<lambda>k. failing), api = (\<lambda>k. Response 201),
            rng = (\<lambda>k. 0), latency = (\<lambda>k. 0), utcoffset = 0,
            isoformat = (\<lambda>t. ''1970-01-01T00:00:00''), euid = 0, clock = 0, reads = 0,
            requests = 0, draws = 0, ops = 0, trace = []\<rparr>"

definition hot :: sensor where
  "hot = \<lparr>api_url = ''http://localhost:3000'', device_id = ''pi4-dht11-001'',
           dht_device = Some (\<lambda>k. (Returns (Some 150), Returns (Some 50)))\<rparr>"

definition silent :: sensor where
  "silent = \<lparr>api_url = ''http://localhost:3000'', device_id = ''pi4-dht11-001'',
              dht_device = Some (\<lambda>k. (Returns None, Returns None))\<rparr>"

definition mild :: sensor where
  "mild = \<lparr>api_url = ''http://localhost:3000'', device_id = ''pi4-dht11-001'',
            dht_device = Some (\<lambda>k. (Returns (Some 22.5), Returns (Some 48)))\<rparr>"

text \<open>A \<open>vcgencmd\<close> source gives no value: the command cannot be run, ends with a return
  code other than 0, or prints what cannot be parsed.\<close>

fun unavailable :: "(int \<times> 'a option) option \<Rightarrow> bool" where
  "unavailable None = True"
| "unavailable (Some (returncode, parsed)) = (returncode \<noteq> 0 \<or> parsed = None)"

text \<open>The dict that \<open>collect_health_data\<close> builds, as a function of what the getters gave.\<close>

definition health_fields ::
  "string \<Rightarrow> real \<Rightarrow> real \<Rightarrow> real \<Rightarrow> real \<Rightarrow> real \<times> real \<Rightarrow> real \<times> real \<times> real \<Rightarrow> real \<Rightarrow> string
   \<Rightarrow> real option \<Rightarrow> real option \<Rightarrow> (string \<times> json) list" where
  "health_fields d cpu_temp cpu_usage memory_usage disk net load uptime ts voltage frequency =
     [(''deviceId'', Str d),
      (''cpuTemperature'', Num (round_py cpu_temp 2)),
      (''cpuUsage'', Num (round_py cpu_usage 2)),
      (''memoryUsage'', Num (round_py memory_usage 2)),
      (''diskUsage'', Num (round_py disk 2)),
      (''networkUpload'', Num (round_py (fst net) 2)),
      (''networkDownload'', Num (round_py (snd net) 2)),
      (''uptime'', Num (round_py uptime 2)),
      (''loadAverage1m'', Num (round_py (fst load) 2)),
      (''loadAverage5m'', Num (round_py (fst (snd load)) 2)),
      (''loadAverage15m'', Num (round_py (snd (snd load)) 2)),
      (''timestamp'', Str ts),
      (''location'', location)]
     @ (case voltage of None \<Rightarrow> [] | Some v \<Rightarrow> [(''voltage'', Num (round_py v 3))])
     @ (case frequency of None \<Rightarrow> [] | Some f \<Rightarrow> [(''frequency'', Num (round_py f 0))])"

definition pi4 :: monitor where
  "pi4 = \<lparr>api_url = ''http://localhost:3000'', device_id = ''pi4-device-001'', interval = 30\<rparr>"

definition answering :: "http_result \<Rightarrow> world" where
  "answering r = calm\<lparr>api := (\<lambda>k. r)\<rparr>"

definition room :: reading where
  "room = \<lparr>temperature = 22.5, humidity = 48, timestamp = ''1970-01-01T00:00:00Z''\<rparr>"

definition heartbeat :: json where
  "heartbeat = Obj [(''deviceId'', Str ''pi4-device-001''), (''cpuUsage'', Num 12)]"

text \<open>The events that transmit a sample.\<close>

fun is_post :: "real \<times> event \<Rightarrow> bool" where
  "is_post (t, HttpPost url p) = True"
| "is_post _ = False"

text \<open>The API refuses the health probe that is about to be made: the transport fails or
  the status is not 200.\<close>

definition refused :: "world \<Rightarrow> bool" where
  "refused w =
     (api w (requests w) = RequestException \<or>
      (\<exists>c. c \<noteq> 200 \<and> api w (requests w) = Response c))"

text \<open>
  The sidecar queries of the host agent start with the device-status query; the times at
  which a trace starts one are the times of the sidecar invocations. \<open>window\<close> numbers
  the 300-second windows of the wall clock, \<open>at_check\<close> is the loop body up to the point
  where it reads \<open>time.time()\<close> (the sample collected and sent), and a \<open>punctual\<close> world
  is one whose clock never runs backwards.
\<close>

definition status_url :: "'a client_scheme \<Rightarrow> string" where
  "status_url self = api_url self @ ''/pi-health/status/'' @ device_id self"

definition status_times :: "string \<Rightarrow> (real \<times> event) list \<Rightarrow> real list" where
  "status_times url tr = map fst (filter (\<lambda>p. snd p = HttpGet url) tr)"

definition window :: "real \<Rightarrow> int" where
  "window t = \<lfloor>t / 300\<rfloor>"

definition punctual :: "world \<Rightarrow> bool" where
  "punctual w = (\<forall>k. 0 \<le> latency w k)"

definition at_check :: "monitor \<Rightarrow> world \<Rightarrow> (exn + bool) \<times> world" where
  "at_check self w =
     (case collect_health_data self w of
        (health_data, w1) \<Rightarrow> send_health_data self health_data w1)"

text \<open>Steps that start no status query and keep the clock from running backwards; steps
  that make no request; and the two halves of the loop invariant for an interval of 30
  seconds: every status query so far fell below second 30 of a window of its own, and
  lies at least 30 seconds back.\<close>

definition quiet :: "string \<Rightarrow> world \<Rightarrow> world \<Rightarrow> bool" where
  "quiet url w w' =
     (latency w' = latency w \<and> (punctual w \<longrightarrow> clock w \<le> clock w') \<and>
      status_times url (trace w') = status_times url (trace w))"

definition offline :: "world \<Rightarrow> world \<Rightarrow> bool" where
  "offline w w' = (api w' = api w \<and> requests w' = requests w)"

definition on_time :: "string \<Rightarrow> world \<Rightarrow> bool" where
  "on_time url w =
     ((\<forall>t \<in> set (status_times url (trace w)). mod_py t 300 < 30) \<and>
      distinct (map window (status_times url (trace w))))"

definition rested :: "string \<Rightarrow> world \<Rightarrow> bool" where
  "rested url w = (\<forall>t \<in> set (status_times url (trace w)). t + 30 \<le> clock w)"

text \<open>
  The model of the synthesizer in the words of its description: a base value, a diurnal
  sine of the hour with an amplitude and a phase, a noise term, and a clamp.
  \<open>synthesized\<close> is the sample of the host simulator written with this model, from the
  hour, the clock, the text of the timestamp and the twelve values \<open>u 0\<close>, ..., \<open>u 11\<close>
  that the random source yields next.
\<close>

definition diurnal :: "real \<Rightarrow> real \<Rightarrow> real \<Rightarrow> real \<Rightarrow> real \<Rightarrow> real \<Rightarrow> real \<Rightarrow> real" where
  "diurnal base amplitude phase noise lo hi hour =
     max lo (min hi (base + amplitude * sin ((hour - phase) * pi / 12) + noise))"

definition synthesized :: "string \<Rightarrow> real \<Rightarrow> real \<Rightarrow> string \<Rightarrow> (nat \<Rightarrow> real) \<Rightarrow> json" where
  "synthesized dev hour now ts u =
     (let cpu_usage = diurnal 30 20 8 (- 5 + 10 * u 1) 5 95 hour;
          load_1m = max 0.1 (cpu_usage / 100 * 2 + (- 0.5 + u 4));
          load_5m = load_1m * 0.8 + (- 0.2 + 0.4 * u 5);
          load_15m = load_5m * 0.9 + (- 0.1 + 0.2 * u 6)
      in Obj [(''deviceId'', Str dev),
              (''cpuTemperature'', Num (round_py (diurnal 45 10 6 (- 2 + 4 * u 0) 20 85 hour) 2)),
              (''cpuUsage'', Num (round_py cpu_usage 2)),
              (''memoryUsage'', Num (round_py (diurnal 50 16 8 (- 3 + 6 * u 2) 20 90 hour) 2)),
              (''diskUsage'', Num (round_py (diurnal 60 0 0 (- 2 + 4 * u 3) 40 95 hour) 2)),
              (''networkUpload'', Num (round_py (10 * u 7) 2)),
              (''networkDownload'', Num (round_py (20 * u 8) 2)),
              (''uptime'', Num (round_py (now + (- 3600 + 7200 * u 9)) 2)),
              (''loadAverage1m'', Num (round_py load_1m 2)),
              (''loadAverage5m'', Num (round_py load_5m 2)),
              (''loadAverage15m'', Num (round_py load_15m 2)),
              (''voltage'', Num (round_py (4.8 + (- 0.2 + 0.4 * u 10)) 3)),
              (''frequency'', Num (round_py (1400 + (- 100 + 200 * u 11)) 0)),
              (''timestamp'', Str ts),
              (''location'', location)])"

text \<open>Eight o'clock in the morning (UTC) with a random source that yields 0.0, and
  surroundings that differ from the calm ones in all but the clock and the random
  source.\<close>

definition morning :: world where
  "morning = calm\<lparr>clock := 28800\<rparr>"

definition noisy :: world where
  "noisy = calm\<lparr>api := (\<lambda>k. RequestException), euid := 1000, requests := 5, reads := 7,
                 ops := 3, latency := (\<lambda>k. 2), trace := [(0, Sleep 1)]\<rparr>"

section \<open>Effects of the primitives\<close>

lemma emit_fields [simp]:
  "trace (emit e w) = trace w @ [(clock w, e)]" "clock (emit e w) = clock w"
  "reads (emit e w) = reads w" "requests (emit e w) = requests w"
  "draws (emit e w) = draws w" "ops (emit e w) = ops w" "api (emit e w) = api w"
  "rng (emit e w) = rng w" "latency (emit e w) = latency w" "metrics (emit e w) = metrics w"
  "hardware (emit e w) = hardware w" "utcoffset (emit e w) = utcoffset w"
  "isoformat (emit e w) = isoformat w" "euid (emit e w) = euid w"
  by (simp_all add: emit_def)

lemma elapse_fields [simp]:
  "trace (elapse w) = trace w" "clock (elapse w) = clock w + latency w (ops w)"
  "reads (elapse w) = reads w" "requests (elapse w) = requests w"
  "draws (elapse w) = draws w" "ops (elapse w) = Suc (ops w)" "api (elapse w) = api w"
  "rng (elapse w) = rng w" "latency (elapse w) = latency w" "metrics (elapse w) = metrics w"
  "hardware (elapse w) = hardware w" "utcoffset (elapse w) = utcoffset w"
  "isoformat (elapse w) = isoformat w" "euid (elapse w) = euid w"
  by (simp_all add: elapse_def)

lemma logger_fields [simp]:
  "trace (logger l m w) = trace w @ [(clock w, Log l m)]" "clock (logger l m w) = clock w"
  "reads (logger l m w) = reads w" "requests (logger l m w) = requests w"
  "draws (logger l m w) = draws w" "ops (logger l m w) = ops w" "api (logger l m w) = api w"
  "rng (logger l m w) = rng w" "latency (logger l m w) = latency w"
  "metrics (logger l m w) = metrics w" "hardware (logger l m w) = hardware w"
  "utcoffset (logger l m w) = utcoffset w" "isoformat (logger l m w) = isoformat w"
  "euid (logger l m w) = euid w"
  by (simp_all add: logger_def)

lemma sleep_fields [simp]:
  "trace (sleep s w) = trace w @ [(clock w, Sleep s)]"
  "clock (sleep s w) = clock w + s + latency w (ops w)"
  "reads (sleep s w) = reads w" "requests (sleep s w) = requests w"
  "draws (sleep s w) = draws w" "ops (sleep s w) = Suc (ops w)" "api (sleep s w) = api w"
  "rng (sleep s w) = rng w" "latency (sleep s w) = latency w" "metrics (sleep s w) = metrics w"
  "hardware (sleep s w) = hardware w" "utcoffset (sleep s w) = utcoffset w"
  "isoformat (sleep s w) = isoformat w" "euid (sleep s w) = euid w"
  by (simp_all add: sleep_def)

lemma upt3: "[0..<3] = [0, 1, 2]"
  by (simp add: upt_rec)

section \<open>The sensor agent returns and transmits only readings in range\<close>

lemma validate_Return: "validate t h w = (Return r, w') \<Longrightarrow> in_range r"
  by (auto simp: validate_def in_range_def Let_def split: option.splits if_splits)

lemma validate_trace:
  "validate t h w = (s, w') \<Longrightarrow> list_all transmits_reportable (trace w)
   \<Longrightarrow> list_all transmits_reportable (trace w')"
  by (auto simp: validate_def Let_def split: option.splits if_splits)

lemma attempt_body_Return: "attempt_body dev a w = (Return r, w') \<Longrightarrow> in_range r"
  by (auto simp: attempt_body_def Let_def split: read.splits prod.splits dest: validate_Return)

lemma attempt_body_trace:
  "attempt_body dev a w = (s, w') \<Longrightarrow> list_all transmits_reportable (trace w)
   \<Longrightarrow> list_all transmits_reportable (trace w')"
  by (auto simp: attempt_body_def Let_def on_exception_def
           split: read.splits prod.splits if_splits dest!: validate_trace)

lemma read_loop_Some: "read_loop dev as w = (Some r, w') \<Longrightarrow> in_range r"
  by (induction as arbitrary: w)
     (auto split: prod.splits step.splits dest: attempt_body_Return)

lemma read_loop_trace:
  "read_loop dev as w = (x, w') \<Longrightarrow> list_all transmits_reportable (trace w)
   \<Longrightarrow> list_all transmits_reportable (trace w')"
  by (induction as arbitrary: w)
     (auto split: prod.splits step.splits dest: attempt_body_trace)

lemma read_sensor_data_Some: "read_sensor_data self w = (Some r, w') \<Longrightarrow> in_range r"
  by (auto simp: read_sensor_data_def split: option.splits dest: read_loop_Some)

lemma read_sensor_data_trace:
  "read_sensor_data self w = (x, w') \<Longrightarrow> list_all transmits_reportable (trace w)
   \<Longrightarrow> list_all transmits_reportable (trace w')"
  by (auto simp: read_sensor_data_def split: option.splits dest: read_loop_trace)

lemma reportable_payload: "in_range r \<Longrightarrow> reportable (sensor_payload self r)"
  by (simp add: reportable_def sensor_payload_def in_range_def)

lemma send_to_api_trace:
  "send_to_api self (Some r) w = (x, w') \<Longrightarrow> in_range r
   \<Longrightarrow> list_all transmits_reportable (trace w) \<Longrightarrow> list_all transmits_reportable (trace w')"
  by (auto simp: send_to_api_def session_post_def reportable_payload
           split: http_result.splits if_splits)

lemma DHT11Sensor_cycle_trace:
  "DHT11Sensor_cycle self w = (x, w') \<Longrightarrow> list_all transmits_reportable (trace w)
   \<Longrightarrow> list_all transmits_reportable (trace w')"
  by (auto simp: DHT11Sensor_cycle_def split: prod.splits option.splits sum.splits if_splits
           dest: read_sensor_data_trace read_sensor_data_Some send_to_api_trace)

lemma DHT11Sensor_loop_trace:
  "DHT11Sensor_loop self n w = (x, w') \<Longrightarrow> list_all transmits_reportable (trace w)
   \<Longrightarrow> list_all transmits_reportable (trace w')"
  by (induction n arbitrary: w)
     (auto split: prod.splits option.splits dest: DHT11Sensor_cycle_trace)

lemma DHT11Sensor_run_trace:
  "list_all transmits_reportable (trace w)
   \<Longrightarrow> list_all transmits_reportable (trace (DHT11Sensor_run self n w))"
  by (auto simp: DHT11Sensor_run_def initialize_sensor_def Let_def
           split: prod.splits option.splits stop.splits bool.splits
           dest!: DHT11Sensor_loop_trace)

text \<open>
  Claim C1. Whatever the device yields, a reading that \<open>read_sensor_data\<close> returns has its
  temperature in [-100, 100] and its humidity in [0, 100]; and a run of the sensor agent,
  for any number of cycles, adds to the trace only POSTs whose payload carries a
  temperature and a humidity in these ranges: if every POST made so far was in range,
  every POST made up to the end of the run is.
\<close>

theorem C1_readings_in_range:
  "(fst (read_sensor_data self w) = Some r \<longrightarrow>
      - 100 \<le> temperature r \<and> temperature r \<le> 100 \<and> 0 \<le> humidity r \<and> humidity r \<le> 100) \<and>
   (list_all transmits_reportable (trace w) \<longrightarrow>
      list_all transmits_reportable (trace (snd (DHT11Sensor_main n w))))"
proof (rule conjI; rule impI)
  assume "fst (read_sensor_data self w) = Some r"
  then have "read_sensor_data self w = (Some r, snd (read_sensor_data self w))"
    by (metis prod.collapse)
  then have "in_range r" by (rule read_sensor_data_Some)
  then show "- 100 \<le> temperature r \<and> temperature r \<le> 100 \<and> 0 \<le> humidity r \<and> humidity r \<le> 100"
    by (simp add: in_range_def)
next
  assume "list_all transmits_reportable (trace w)"
  then show "list_all transmits_reportable (trace (snd (DHT11Sensor_main n w)))"
    by (auto simp: DHT11Sensor_main_def dest: DHT11Sensor_run_trace)
qed

theorem C1_readings_in_range_witness:
  "fst (read_sensor_data mild calm) =
     Some \<lparr>temperature = 22.5, humidity = 48, timestamp = ''1970-01-01T00:00:00Z''\<rparr> \<and>
   - 100 \<le> (22.5 :: real) \<and> (22.5 :: real) \<le> 100 \<and> 0 \<le> (48 :: real) \<and> (48 :: real) \<le> 100 \<and>
   list_all transmits_reportable
     (trace (snd (DHT11Sensor_main 2 (calm\<lparr>hardware := dht_device mild\<rparr>))))"
proof -
  have r: "fst (read_sensor_data mild calm) =
      Some \<lparr>temperature = 22.5, humidity = 48, timestamp = ''1970-01-01T00:00:00Z''\<rparr>"
    by (simp add: read_sensor_data_def mild_def calm_def MAX_RETRIES_def upt3
          attempt_body_def validate_def utcnow_isoformat_Z_def Let_def)
  have t: "list_all transmits_reportable (trace (calm\<lparr>hardware := dht_device mild\<rparr>))"
    by (simp add: calm_def)
  show ?thesis
    using r t C1_readings_in_range [of mild calm
        "\<lparr>temperature = 22.5, humidity = 48, timestamp = ''1970-01-01T00:00:00Z''\<rparr>" 2]
      C1_readings_in_range [of mild "calm\<lparr>hardware := dht_device mild\<rparr>"
        "\<lparr>temperature = 22.5, humidity = 48, timestamp = ''1970-01-01T00:00:00Z''\<rparr>" 2]
    by simp
qed

section \<open>The sensor agent makes at most MAX_RETRIES attempts and then gives up\<close>

lemma validate_reads: "reads (snd (validate t h w)) = reads w"
  by (auto simp: validate_def Let_def split: option.splits)

lemma attempt_body_reads: "reads (snd (attempt_body dev a w)) = Suc (reads w)"
  by (auto simp: attempt_body_def Let_def on_exception_def validate_reads
           split: read.splits prod.splits)

lemma read_loop_reads: "reads (snd (read_loop dev as w)) \<le> reads w + length as"
proof (induction as arbitrary: w)
  case Nil
  show ?case by simp
next
  case (Cons a as)
  obtain s w1 where b: "attempt_body dev a w = (s, w1)"
    by (cases "attempt_body dev a w")
  with attempt_body_reads [of dev a w] have r: "reads w1 = Suc (reads w)" by simp
  show ?case using Cons.IH [of w1] b r by (cases s) auto
qed

lemma validate_unusable: "\<not> usable (Returns t, Returns h) \<Longrightarrow> fst (validate t h w) = Continue"
  by (cases t; cases h) (auto simp: validate_def Let_def)

lemma attempt_body_unusable:
  "\<not> usable (dev (reads w)) \<Longrightarrow> fst (attempt_body dev a w) = Continue"
  by (cases "dev (reads w)")
     (auto simp: attempt_body_def Let_def validate_unusable split: read.splits)

lemma read_loop_exhaust:
  "\<forall>k<length as. \<not> usable (dev (reads w + k)) \<Longrightarrow>
   fst (read_loop dev as w) = None \<and> reads (snd (read_loop dev as w)) = reads w + length as"
proof (induction as arbitrary: w)
  case Nil
  show ?case by simp
next
  case (Cons a as)
  obtain s w1 where b: "attempt_body dev a w = (s, w1)"
    by (cases "attempt_body dev a w")
  from Cons.prems have "\<not> usable (dev (reads w))" by force
  with attempt_body_unusable [of dev w a] b have s: "s = Continue" by simp
  from attempt_body_reads [of dev a w] b have r: "reads w1 = Suc (reads w)" by simp
  have "\<forall>k<length as. \<not> usable (dev (reads w1 + k))"
  proof (intro allI impI)
    fix k assume "k < length as"
    then have "Suc k < length (a # as)" by simp
    with Cons.prems have "\<not> usable (dev (reads w + Suc k))" by blast
    then show "\<not> usable (dev (reads w1 + k))" by (simp add: r)
  qed
  from Cons.IH [OF this] show ?case using b s r by simp
qed

text \<open>
  Claim C2. One call of \<open>read_sensor_data\<close> makes at most \<open>MAX_RETRIES\<close> attempts on the
  source. When none of the next \<open>MAX_RETRIES\<close> samples passes the checks (it raises, is
  missing or is out of range), the call makes exactly \<open>MAX_RETRIES\<close> attempts and returns
  \<open>None\<close>; it returns a value in every case, as no exception of the source leaves the loop
  body. \<open>MAX_RETRIES\<close> is 3, and on a source that always yields missing values the call
  makes exactly 3 attempts and returns \<open>None\<close>.
\<close>

theorem C2_bounded_attempts:
  "reads (snd (read_sensor_data self w)) \<le> reads w + MAX_RETRIES \<and>
   (dht_device self = Some dev \<and> (\<forall>k<MAX_RETRIES. \<not> usable (dev (reads w + k))) \<longrightarrow>
      fst (read_sensor_data self w) = None \<and>
      reads (snd (read_sensor_data self w)) = reads w + MAX_RETRIES) \<and>
   MAX_RETRIES = 3 \<and>
   (dht_device self = Some (\<lambda>k. (Returns None, Returns None)) \<longrightarrow>
      fst (read_sensor_data self w) = None \<and>
      reads (snd (read_sensor_data self w)) = reads w + 3)"
proof (intro conjI impI)
  show "reads (snd (read_sensor_data self w)) \<le> reads w + MAX_RETRIES"
    using read_loop_reads [of _ "[0..<MAX_RETRIES]" w]
    by (auto simp: read_sensor_data_def split: option.splits)
next
  assume a: "dht_device self = Some dev \<and> (\<forall>k<MAX_RETRIES. \<not> usable (dev (reads w + k)))"
  then show "fst (read_sensor_data self w) = None"
    using read_loop_exhaust [of "[0..<MAX_RETRIES]" dev w] by (simp add: read_sensor_data_def)
  from a show "reads (snd (read_sensor_data self w)) = reads w + MAX_RETRIES"
    using read_loop_exhaust [of "[0..<MAX_RETRIES]" dev w] by (simp add: read_sensor_data_def)
next
  show "MAX_RETRIES = 3" by (simp add: MAX_RETRIES_def)
next
  assume a: "dht_device self = Some (\<lambda>k. (Returns None, Returns None))"
  then show "fst (read_sensor_data self w) = None"
    using read_loop_exhaust [of "[0..<MAX_RETRIES]" "\<lambda>k. (Returns None, Returns None)" w]
    by (simp add: read_sensor_data_def)
  from a show "reads (snd (read_sensor_data self w)) = reads w + 3"
    using read_loop_exhaust [of "[0..<MAX_RETRIES]" "\<lambda>k. (Returns None, Returns None)" w]
    by (simp add: read_sensor_data_def MAX_RETRIES_def)
qed

theorem C2_bounded_attempts_witness:
  "dht_device silent = Some (\<lambda>k. (Returns None, Returns None)) \<and>
   \<not> usable (Returns None, Returns None) \<and>
   fst (read_sensor_data silent calm) = None \<and>
   reads (snd (read_sensor_data silent calm)) = 3 \<and>
   reads (snd (read_sensor_data hot calm)) = 3"
proof -
  have d: "dht_device silent = Some (\<lambda>k. (Returns None, Returns None))"
    by (simp add: silent_def)
  have h: "dht_device hot = Some (\<lambda>k. (Returns (Some 150), Returns (Some 50))) \<and>
           (\<forall>k<MAX_RETRIES. \<not> usable ((\<lambda>k. (Returns (Some 150), Returns (Some 50))) (reads calm + k)))"
    by (simp add: hot_def)
  have z: "reads calm = 0" by (simp add: calm_def)
  show ?thesis
    using d h z C2_bounded_attempts [of silent calm "\<lambda>k. (Returns None, Returns None)"]
      C2_bounded_attempts [of hot calm "\<lambda>k. (Returns (Some 150), Returns (Some 50))"]
    by simp
qed

section \<open>The backoff between the attempts\<close>

text \<open>
  Claim C5, at a device that yields temperature 150 and humidity 50 on every attempt:
  the three attempts follow one another with a warning and no sleep between them, where
  the claim has a backoff of one second after every out-of-range classification.
\<close>

theorem C5_out_of_range_without_backoff:
  "map snd (trace (snd (read_sensor_data hot calm))) =
     [Measure 0, Log Warning ''Temperature out of range'',
      Measure 1, Log Warning ''Temperature out of range'',
      Measure 2, Log Warning ''Temperature out of range'',
      Log Error ''Failed to read sensor data after all attempts'']"
  by (simp add: read_sensor_data_def hot_def calm_def MAX_RETRIES_def upt3 attempt_body_def
        validate_def Let_def)

text \<open>The sibling paths do wait: one second after each missing reading.\<close>

lemma missing_with_backoff:
  "map snd (trace (snd (read_sensor_data silent calm))) =
     [Measure 0, Log Warning ''Invalid readings'', Sleep 1,
      Measure 1, Log Warning ''Invalid readings'', Sleep 1,
      Measure 2, Log Warning ''Invalid readings'', Sleep 1,
      Log Error ''Failed to read sensor data after all attempts'']"
  by (simp add: read_sensor_data_def silent_def calm_def MAX_RETRIES_def upt3 attempt_body_def
        validate_def Let_def)

section \<open>A report succeeds exactly on status 201\<close>

lemma send_to_api_result:
  "fst (send_to_api self (Some d) w) =
     (case api w (requests w) of
        Response c \<Rightarrow> Inr (c = 201)
      | RequestException \<Rightarrow> Inr False
      | OtherException \<Rightarrow> Inl UnexpectedError)"
  by (simp add: send_to_api_def session_post_def split: http_result.splits)

lemma send_health_data_result:
  "truthy (Some p) \<Longrightarrow> fst (send_health_data m (Some p) w) =
     (case api w (requests w) of
        Response c \<Rightarrow> Inr (c = 201)
      | RequestException \<Rightarrow> Inr False
      | OtherException \<Rightarrow> Inl UnexpectedError)"
  by (simp add: send_health_data_def session_post_def split: http_result.splits)

text \<open>
  Claim C3. The reporters of the sensor agent and of the host agent return \<open>True\<close> exactly
  when a POST is made and its status code is 201. A \<open>RequestException\<close> of the transport
  and every other status code give \<open>False\<close>, returned and not raised; so does a call
  with nothing to send, which makes no POST.
\<close>

theorem C3_success_iff_201:
  "(fst (send_to_api self (Some d) w) = Inr True \<longleftrightarrow> api w (requests w) = Response 201) \<and>
   (fst (send_health_data m (Some p) w) = Inr True \<longleftrightarrow>
      truthy (Some p) \<and> api w (requests w) = Response 201) \<and>
   (api w (requests w) = RequestException \<or>
    (\<exists>c. c \<noteq> 201 \<and> api w (requests w) = Response c) \<longrightarrow>
      fst (send_to_api self (Some d) w) = Inr False \<and>
      fst (send_health_data m (Some p) w) = Inr False) \<and>
   fst (send_to_api self None w) = Inr False \<and>
   fst (send_health_data m None w) = Inr False"
proof -
  have 1: "fst (send_to_api self (Some d) w) = Inr True \<longleftrightarrow> api w (requests w) = Response 201"
    by (simp add: send_to_api_result split: http_result.splits)
  have 2: "fst (send_health_data m (Some p) w) = Inr True \<longleftrightarrow>
      truthy (Some p) \<and> api w (requests w) = Response 201"
  proof (cases "truthy (Some p)")
    case True
    then show ?thesis by (simp add: send_health_data_result split: http_result.splits)
  next
    case False
    then show ?thesis by (simp add: send_health_data_def)
  qed
  have 3: "api w (requests w) = RequestException \<or>
      (\<exists>c. c \<noteq> 201 \<and> api w (requests w) = Response c) \<longrightarrow>
      fst (send_to_api self (Some d) w) = Inr False \<and>
      fst (send_health_data m (Some p) w) = Inr False"
  proof (cases "truthy (Some p)")
    case True
    then show ?thesis by (auto simp: send_to_api_result send_health_data_result)
  next
    case False
    then show ?thesis by (auto simp: send_to_api_result send_health_data_def)
  qed
  have 4: "fst (send_to_api self None w) = Inr False" by (simp add: send_to_api_def)
  have 5: "fst (send_health_data m None w) = Inr False" by (simp add: send_health_data_def)
  show ?thesis by (rule conjI 1 2 3 4 5)+
qed

theorem C3_success_iff_201_witness:
  "fst (send_to_api mild (Some room) (answering (Response 201))) = Inr True \<and>
   fst (send_to_api mild (Some room) (answering (Response 500))) = Inr False \<and>
   fst (send_to_api mild (Some room) (answering (Response 200))) = Inr False \<and>
   fst (send_to_api mild (Some room) (answering (Response 400))) = Inr False \<and>
   fst (send_to_api mild (Some room) (answering RequestException)) = Inr False \<and>
   fst (send_health_data pi4 (Some heartbeat) (answering (Response 201))) = Inr True \<and>
   fst (send_health_data pi4 (Some heartbeat) (answering (Response 500))) = Inr False \<and>
   fst (send_health_data pi4 (Some heartbeat) (answering RequestException)) = Inr False"
proof -
  have a: "api (answering r) (requests (answering r)) = r" for r
    by (simp add: answering_def)
  have t: "truthy (Some heartbeat)" by (simp add: heartbeat_def)
  show ?thesis
    using t
      C3_success_iff_201 [of mild room "answering (Response 201)" pi4 heartbeat]
      C3_success_iff_201 [of mild room "answering (Response 500)" pi4 heartbeat]
      C3_success_iff_201 [of mild room "answering (Response 200)" pi4 heartbeat]
      C3_success_iff_201 [of mild room "answering (Response 400)" pi4 heartbeat]
      C3_success_iff_201 [of mild room "answering RequestException" pi4 heartbeat]
    by (simp add: a)
qed

section \<open>A failed collection degrades to zero, an unavailable optional metric is left out\<close>

lemma round_py_0 [simp]: "round_py 0 n = 0"
  by (simp add: round_py_def)

lemma getter_values:
  "fst (get_cpu_temperature src w) =
     (case thermal_zone0 src of Some t \<Rightarrow> real_of_int t / 1000 | None \<Rightarrow> 0)"
  "fst (get_cpu_usage src w) = (case cpu_percent src of Some x \<Rightarrow> x | None \<Rightarrow> 0)"
  "fst (get_memory_usage src w) = (case virtual_memory src of Some x \<Rightarrow> x | None \<Rightarrow> 0)"
  "fst (get_disk_usage src w) = (case disk_usage src of Some x \<Rightarrow> x | None \<Rightarrow> 0)"
  "fst (get_network_usage src w) =
     (case net_io_counters src of
        Some (s, r) \<Rightarrow> (real s / 1024 / 1024, real r / 1024 / 1024)
      | None \<Rightarrow> (0, 0))"
  "fst (get_system_load src w) = (case getloadavg src of Some l \<Rightarrow> l | None \<Rightarrow> (0, 0, 0))"
  "fst (get_uptime src w) = (case boot_time src of Some b \<Rightarrow> clock w - b | None \<Rightarrow> 0)"
  by (auto simp: get_cpu_temperature_def get_cpu_usage_def get_memory_usage_def
        get_disk_usage_def get_network_usage_def get_system_load_def get_uptime_def
      split: option.splits)

lemma get_cpu_voltage_None:
  "fst (get_cpu_voltage src w) = None \<longleftrightarrow> unavailable (measure_volts src)"
  by (cases "measure_volts src") (auto simp: get_cpu_voltage_def split: option.splits)

lemma get_cpu_frequency_None:
  "fst (get_cpu_frequency src w) = None \<longleftrightarrow> unavailable (measure_clock src)"
  by (cases "measure_clock src") (auto simp: get_cpu_frequency_def split: option.splits)

lemma collect_health_data_payload:
  assumes "get_cpu_temperature src (w\<lparr>reads := Suc (reads w)\<rparr>) = (cpu_temp, w1)"
    and "get_cpu_usage src w1 = (cpu_usage, w2)"
    and "get_memory_usage src w2 = (memory_usage, w3)"
    and "get_disk_usage src w3 = (disk, w4)"
    and "get_network_usage src w4 = (net, w5)"
    and "get_system_load src w5 = (load, w6)"
    and "get_uptime src w6 = (uptime, w7)"
    and "get_cpu_voltage src w7 = (voltage, w8)"
    and "get_cpu_frequency src w8 = (frequency, w9)"
    and "src = metrics w (reads w)"
  shows "fst (collect_health_data self w) =
    Some (Obj (health_fields (device_id self) cpu_temp cpu_usage memory_usage disk net load
                 uptime (utcnow_isoformat_Z w9) voltage frequency))"
  using assms
  by (simp add: collect_health_data_def health_fields_def Let_def split_beta
        split: option.splits)

lemma health_fields_lookup:
  "map_of (health_fields d 0 cpu_usage memory_usage disk net load uptime ts voltage frequency)
     ''cpuTemperature'' = Some (Num 0)"
  "map_of (health_fields d cpu_temp 0 memory_usage disk net load uptime ts voltage frequency)
     ''cpuUsage'' = Some (Num 0)"
  "map_of (health_fields d cpu_temp cpu_usage 0 disk net load uptime ts voltage frequency)
     ''memoryUsage'' = Some (Num 0)"
  "map_of (health_fields d cpu_temp cpu_usage memory_usage 0 net load uptime ts voltage frequency)
     ''diskUsage'' = Some (Num 0)"
  "map_of (health_fields d cpu_temp cpu_usage memory_usage disk (0, 0) load uptime ts voltage
     frequency) ''networkUpload'' = Some (Num 0)"
  "map_of (health_fields d cpu_temp cpu_usage memory_usage disk (0, 0) load uptime ts voltage
     frequency) ''networkDownload'' = Some (Num 0)"
  "map_of (health_fields d cpu_temp cpu_usage memory_usage disk net (0, 0, 0) uptime ts voltage
     frequency) ''loadAverage1m'' = Some (Num 0)"
  "map_of (health_fields d cpu_temp cpu_usage memory_usage disk net (0, 0, 0) uptime ts voltage
     frequency) ''loadAverage5m'' = Some (Num 0)"
  "map_of (health_fields d cpu_temp cpu_usage memory_usage disk net (0, 0, 0) uptime ts voltage
     frequency) ''loadAverage15m'' = Some (Num 0)"
  "map_of (health_fields d cpu_temp cpu_usage memory_usage disk net load 0 ts voltage frequency)
     ''uptime'' = Some (Num 0)"
  by (simp_all add: health_fields_def)

lemma health_fields_optional:
  "''voltage'' \<in> fst ` set (health_fields d cpu_temp cpu_usage memory_usage disk net load uptime
     ts voltage frequency) \<longleftrightarrow> voltage \<noteq> None"
  "''frequency'' \<in> fst ` set (health_fields d cpu_temp cpu_usage memory_usage disk net load uptime
     ts voltage frequency) \<longleftrightarrow> frequency \<noteq> None"
  by (cases voltage; cases frequency; simp add: health_fields_def)+

lemma collect_health_data_degrades:
  "\<exists>kvs. fst (collect_health_data self w) = Some (Obj kvs) \<and>
     (thermal_zone0 (metrics w (reads w)) = None \<longrightarrow>
        map_of kvs ''cpuTemperature'' = Some (Num 0)) \<and>
     (cpu_percent (metrics w (reads w)) = None \<longrightarrow> map_of kvs ''cpuUsage'' = Some (Num 0)) \<and>
     (virtual_memory (metrics w (reads w)) = None \<longrightarrow>
        map_of kvs ''memoryUsage'' = Some (Num 0)) \<and>
     (disk_usage (metrics w (reads w)) = None \<longrightarrow> map_of kvs ''diskUsage'' = Some (Num 0)) \<and>
     (net_io_counters (metrics w (reads w)) = None \<longrightarrow>
        map_of kvs ''networkUpload'' = Some (Num 0) \<and>
        map_of kvs ''networkDownload'' = Some (Num 0)) \<and>
     (getloadavg (metrics w (reads w)) = None \<longrightarrow>
        map_of kvs ''loadAverage1m'' = Some (Num 0) \<and>
        map_of kvs ''loadAverage5m'' = Some (Num 0) \<and>
        map_of kvs ''loadAverage15m'' = Some (Num 0)) \<and>
     (boot_time (metrics w (reads w)) = None \<longrightarrow> map_of kvs ''uptime'' = Some (Num 0)) \<and>
     (''voltage'' \<in> fst ` set kvs \<longleftrightarrow> \<not> unavailable (measure_volts (metrics w (reads w)))) \<and>
     (''frequency'' \<in> fst ` set kvs \<longleftrightarrow> \<not> unavailable (measure_clock (metrics w (reads w))))"
proof -
  define src where "src = metrics w (reads w)"
  have src: "metrics w (reads w) = src" by (simp add: src_def)
  obtain cpu_temp w1
    where g1: "get_cpu_temperature src (w\<lparr>reads := Suc (reads w)\<rparr>) = (cpu_temp, w1)"
    by (rule prod.exhaust)
  obtain cpu_usage w2 where g2: "get_cpu_usage src w1 = (cpu_usage, w2)"
    by (rule prod.exhaust)
  obtain memory_usage w3 where g3: "get_memory_usage src w2 = (memory_usage, w3)"
    by (rule prod.exhaust)
  obtain disk w4 where g4: "get_disk_usage src w3 = (disk, w4)"
    by (rule prod.exhaust)
  obtain net w5 where g5: "get_network_usage src w4 = (net, w5)"
    by (rule prod.exhaust)
  obtain load w6 where g6: "get_system_load src w5 = (load, w6)"
    by (rule prod.exhaust)
  obtain uptime w7 where g7: "get_uptime src w6 = (uptime, w7)"
    by (rule prod.exhaust)
  obtain voltage w8 where g8: "get_cpu_voltage src w7 = (voltage, w8)"
    by (rule prod.exhaust)
  obtain frequency w9 where g9: "get_cpu_frequency src w8 = (frequency, w9)"
    by (rule prod.exhaust)
  define kvs where "kvs = health_fields (device_id self) cpu_temp cpu_usage memory_usage disk
      net load uptime (utcnow_isoformat_Z w9) voltage frequency"
  have p: "fst (collect_health_data self w) = Some (Obj kvs)"
    unfolding kvs_def
    by (rule collect_health_data_payload [OF g1 g2 g3 g4 g5 g6 g7 g8 g9 src_def])
  have v1: "thermal_zone0 src = None \<Longrightarrow> cpu_temp = 0"
    using getter_values(1) [of src "w\<lparr>reads := Suc (reads w)\<rparr>"] by (simp add: g1)
  have v2: "cpu_percent src = None \<Longrightarrow> cpu_usage = 0"
    using getter_values(2) [of src w1] by (simp add: g2)
  have v3: "virtual_memory src = None \<Longrightarrow> memory_usage = 0"
    using getter_values(3) [of src w2] by (simp add: g3)
  have v4: "disk_usage src = None \<Longrightarrow> disk = 0"
    using getter_values(4) [of src w3] by (simp add: g4)
  have v5: "net_io_counters src = None \<Longrightarrow> net = (0, 0)"
    using getter_values(5) [of src w4] by (simp add: g5)
  have v6: "getloadavg src = None \<Longrightarrow> load = (0, 0, 0)"
    using getter_values(6) [of src w5] by (simp add: g6)
  have v7: "boot_time src = None \<Longrightarrow> uptime = 0"
    using getter_values(7) [of src w6] by (simp add: g7)
  have v8: "voltage \<noteq> None \<longleftrightarrow> \<not> unavailable (measure_volts src)"
    using get_cpu_voltage_None [of src w7] by (simp add: g8)
  have v9: "frequency \<noteq> None \<longleftrightarrow> \<not> unavailable (measure_clock src)"
    using get_cpu_frequency_None [of src w8] by (simp add: g9)
  have f1: "thermal_zone0 src = None \<longrightarrow> map_of kvs ''cpuTemperature'' = Some (Num 0)"
    using v1 health_fields_lookup(1) by (simp add: kvs_def)
  have f2: "cpu_percent src = None \<longrightarrow> map_of kvs ''cpuUsage'' = Some (Num 0)"
    using v2 health_fields_lookup(2) by (simp add: kvs_def)
  have f3: "virtual_memory src = None \<longrightarrow> map_of kvs ''memoryUsage'' = Some (Num 0)"
    using v3 health_fields_lookup(3) by (simp add: kvs_def)
  have f4: "disk_usage src = None \<longrightarrow> map_of kvs ''diskUsage'' = Some (Num 0)"
    using v4 health_fields_lookup(4) by (simp add: kvs_def)
  have f5: "net_io_counters src = None \<longrightarrow>
        map_of kvs ''networkUpload'' = Some (Num 0) \<and>
        map_of kvs ''networkDownload'' = Some (Num 0)"
    using v5 health_fields_lookup(5,6) by (simp add: kvs_def)
  have f6: "getloadavg src = None \<longrightarrow>
        map_of kvs ''loadAverage1m'' = Some (Num 0) \<and>
        map_of kvs ''loadAverage5m'' = Some (Num 0) \<and>
        map_of kvs ''loadAverage15m'' = Some (Num 0)"
    using v6 health_fields_lookup(7,8,9) by (simp add: kvs_def)
  have f7: "boot_time src = None \<longrightarrow> map_of kvs ''uptime'' = Some (Num 0)"
    using v7 health_fields_lookup(10) by (simp add: kvs_def)
  have f8: "''voltage'' \<in> fst ` set kvs \<longleftrightarrow> \<not> unavailable (measure_volts src)"
    using v8 health_fields_optional(1) by (simp add: kvs_def)
  have f9: "''frequency'' \<in> fst ` set kvs \<longleftrightarrow> \<not> unavailable (measure_clock src)"
    using v9 health_fields_optional(2) by (simp add: kvs_def)
  show ?thesis
    unfolding src by (rule exI [of _ kvs]) (rule conjI p f1 f2 f3 f4 f5 f6 f7 f8 f9)+
qed

lemma getters_degrade:
  "(thermal_zone0 src = None \<longrightarrow> fst (get_cpu_temperature src w) = 0) \<and>
   (cpu_percent src = None \<longrightarrow> fst (get_cpu_usage src w) = 0) \<and>
   (virtual_memory src = None \<longrightarrow> fst (get_memory_usage src w) = 0) \<and>
   (disk_usage src = None \<longrightarrow> fst (get_disk_usage src w) = 0) \<and>
   (net_io_counters src = None \<longrightarrow> fst (get_network_usage src w) = (0, 0)) \<and>
   (getloadavg src = None \<longrightarrow> fst (get_system_load src w) = (0, 0, 0)) \<and>
   (boot_time src = None \<longrightarrow> fst (get_uptime src w) = 0) \<and>
   (unavailable (measure_volts src) \<longrightarrow> fst (get_cpu_voltage src w) = None) \<and>
   (unavailable (measure_clock src) \<longrightarrow> fst (get_cpu_frequency src w) = None)"
  by (simp add: getter_values get_cpu_voltage_None get_cpu_frequency_None)

text \<open>
  Claim C4. In the host agent each getter handles its own failure. When the source of
  the CPU temperature, the CPU usage, the memory usage, the disk usage, the network
  counters, the load averages or the boot time fails, its getter returns 0.0 (both
  values of the network pair, all three load averages), whatever the other sources do,
  and the payload built by \<open>collect_health_data\<close> carries the number 0 in that field.
  When the voltage or the frequency is unavailable, its getter returns \<open>None\<close>, and the
  payload has the key \<open>voltage\<close> (\<open>frequency\<close>) exactly when the value is available.
\<close>

theorem C4_failures_degrade:
  "((thermal_zone0 src = None \<longrightarrow> fst (get_cpu_temperature src w') = 0) \<and>
    (cpu_percent src = None \<longrightarrow> fst (get_cpu_usage src w') = 0) \<and>
    (virtual_memory src = None \<longrightarrow> fst (get_memory_usage src w') = 0) \<and>
    (disk_usage src = None \<longrightarrow> fst (get_disk_usage src w') = 0) \<and>
    (net_io_counters src = None \<longrightarrow> fst (get_network_usage src w') = (0, 0)) \<and>
    (getloadavg src = None \<longrightarrow> fst (get_system_load src w') = (0, 0, 0)) \<and>
    (boot_time src = None \<longrightarrow> fst (get_uptime src w') = 0) \<and>
    (unavailable (measure_volts src) \<longrightarrow> fst (get_cpu_voltage src w') = None) \<and>
    (unavailable (measure_clock src) \<longrightarrow> fst (get_cpu_frequency src w') = None)) \<and>
   (\<exists>kvs. fst (collect_health_data self w) = Some (Obj kvs) \<and>
     (thermal_zone0 (metrics w (reads w)) = None \<longrightarrow>
        map_of kvs ''cpuTemperature'' = Some (Num 0)) \<and>
     (cpu_percent (metrics w (reads w)) = None \<longrightarrow> map_of kvs ''cpuUsage'' = Some (Num 0)) \<and>
     (virtual_memory (metrics w (reads w)) = None \<longrightarrow>
        map_of kvs ''memoryUsage'' = Some (Num 0)) \<and>
     (disk_usage (metrics w (reads w)) = None \<longrightarrow> map_of kvs ''diskUsage'' = Some (Num 0)) \<and>
     (net_io_counters (metrics w (reads w)) = None \<longrightarrow>
        map_of kvs ''networkUpload'' = Some (Num 0) \<and>
        map_of kvs ''networkDownload'' = Some (Num 0)) \<and>
     (getloadavg (metrics w (reads w)) = None \<longrightarrow>
        map_of kvs ''loadAverage1m'' = Some (Num 0) \<and>
        map_of kvs ''loadAverage5m'' = Some (Num 0) \<and>
        map_of kvs ''loadAverage15m'' = Some (Num 0)) \<and>
     (boot_time (metrics w (reads w)) = None \<longrightarrow> map_of kvs ''uptime'' = Some (Num 0)) \<and>
     (''voltage'' \<in> fst ` set kvs \<longleftrightarrow> \<not> unavailable (measure_volts (metrics w (reads w)))) \<and>
     (''frequency'' \<in> fst ` set kvs \<longleftrightarrow> \<not> unavailable (measure_clock (metrics w (reads w)))))"
  by (rule conjI [OF getters_degrade collect_health_data_degrades])

theorem C4_failures_degrade_witness:
  "fst (get_cpu_temperature failing calm) = 0 \<and>
   fst (get_cpu_voltage failing calm) = None \<and>
   (\<exists>kvs. fst (collect_health_data pi4 calm) = Some (Obj kvs) \<and>
      map_of kvs ''cpuTemperature'' = Some (Num 0) \<and>
      map_of kvs ''cpuUsage'' = Some (Num 0) \<and>
      map_of kvs ''memoryUsage'' = Some (Num 0) \<and>
      map_of kvs ''diskUsage'' = Some (Num 0) \<and>
      map_of kvs ''networkUpload'' = Some (Num 0) \<and>
      map_of kvs ''networkDownload'' = Some (Num 0) \<and>
      map_of kvs ''loadAverage1m'' = Some (Num 0) \<and>
      map_of kvs ''loadAverage5m'' = Some (Num 0) \<and>
      map_of kvs ''loadAverage15m'' = Some (Num 0) \<and>
      map_of kvs ''uptime'' = Some (Num 0) \<and>
      ''voltage'' \<notin> fst ` set kvs \<and>
      ''frequency'' \<notin> fst ` set kvs)"
proof -
  have m: "metrics calm (reads calm) = failing" by (simp add: calm_def)
  have s: "thermal_zone0 failing = None" "cpu_percent failing = None"
    "virtual_memory failing = None" "disk_usage failing = None"
    "net_io_counters failing = None" "getloadavg failing = None" "boot_time failing = None"
    "unavailable (measure_volts failing)" "unavailable (measure_clock failing)"
    by (simp_all add: failing_def)
  show ?thesis
    using C4_failures_degrade [of failing calm pi4 calm] by (simp add: m s)
qed

section \<open>The sensor simulator never gets past its first cycle\<close>

lemma session_get_fields [simp]:
  "fst (session_get url w) = api w (requests w)"
  "trace (snd (session_get url w)) = trace w @ [(clock w, HttpGet url)]"
  "reads (snd (session_get url w)) = reads w"
  "requests (snd (session_get url w)) = Suc (requests w)"
  "api (snd (session_get url w)) = api w"
  by (simp_all add: session_get_def)

lemma exit_status_snd [simp]: "snd (exit_status r) = snd r"
  by (cases r) (simp add: exit_status_def split: option.splits)

lemma exit_status_None: "fst r = None \<Longrightarrow> fst (exit_status r) = 0"
  by (cases r) (simp add: exit_status_def)

lemma generate_realistic_data_NameError:
  "generate_realistic_data module_globals w = (Inl NameError, w)"
  by (simp add: generate_realistic_data_def module_globals_def Let_def)

lemma DHT11Simulator_cycle_NameError: "DHT11Simulator_cycle self w = (Some NameError, w)"
  by (simp add: DHT11Simulator_cycle_def DHT11Simulator_report_def
        generate_realistic_data_NameError and_then_def)

lemma DHT11Simulator_loop_NameError:
  "DHT11Simulator_loop self n w = (if n = 0 then Interrupted else Crashed NameError, w)"
  by (cases n) (simp_all add: DHT11Simulator_cycle_NameError)

lemma test_api_connection_posts:
  "filter is_post (trace (snd (test_api_connection path self w))) = filter is_post (trace w)"
  by (simp add: test_api_connection_def session_get_def split: http_result.splits prod.splits)

lemma sidecar_get_posts:
  "filter is_post (trace (snd (sidecar_get url a b c w))) = filter is_post (trace w)"
  by (simp add: sidecar_get_def session_get_def split: http_result.splits prod.splits)

lemma get_stats_posts:
  "filter is_post (trace (snd (get_stats self w))) = filter is_post (trace w)"
  by (simp add: get_stats_def sidecar_get_posts)

lemma DHT11Simulator_run_posts:
  "filter is_post (trace (snd (DHT11Simulator_run self n w))) = filter is_post (trace w)"
proof -
  let ?w0 = "logger Info ''Interval'' (logger Info ''Device ID'' (logger Info ''API URL''
                       (logger Info ''Starting DHT11 sensor simulation...'' w)))"
  have w0: "filter is_post (trace ?w0) = filter is_post (trace w)" by simp
  obtain r w1 where t: "test_api_connection ''/dht11-sensor/health'' self ?w0 = (r, w1)"
    by (rule prod.exhaust)
  have w1: "filter is_post (trace w1) = filter is_post (trace w)"
    using test_api_connection_posts [of "''/dht11-sensor/health''" self ?w0] t w0 by simp
  obtain e w2 where s: "get_stats self w1 = (e, w2)" by (rule prod.exhaust)
  have w2: "filter is_post (trace w2) = filter is_post (trace w)"
    using get_stats_posts [of self w1] s w1 by simp
  show ?thesis
    using t s w1 w2
    by (cases r; cases e;
        simp add: DHT11Simulator_run_def Let_def and_then_def DHT11Simulator_loop_NameError
             split: bool.splits)
qed

text \<open>
  Claim C10. The name \<open>math\<close> is no global of the module of the sensor simulator (it is a
  local of \<open>main\<close>), so every call of \<open>generate_realistic_data\<close> raises \<open>NameError\<close>, before
  any random draw and with no effect. The loop of the simulator therefore ends in its
  first cycle with that exception, whatever the surroundings, and a run of the
  simulator, for any number of cycles allowed, makes no POST.
\<close>

theorem C10_math_unbound:
  "''math'' \<notin> set module_globals \<and> ''math'' \<in> set main_locals \<and>
   generate_realistic_data module_globals w = (Inl NameError, w) \<and>
   DHT11Simulator_loop self (Suc n) w = (Crashed NameError, w) \<and>
   filter is_post (trace (snd (DHT11Simulator_main args n w))) = filter is_post (trace w)"
proof -
  have 1: "''math'' \<notin> set module_globals" by (simp add: module_globals_def)
  have 2: "''math'' \<in> set main_locals" by (simp add: main_locals_def)
  have 3: "DHT11Simulator_loop self (Suc n) w = (Crashed NameError, w)"
    by (simp add: DHT11Simulator_loop_NameError)
  have 4: "filter is_post (trace (snd (DHT11Simulator_main args n w))) = filter is_post (trace w)"
    by (simp add: DHT11Simulator_main_def DHT11Simulator_run_posts)
  show ?thesis by (rule conjI 1 2 3 4 generate_realistic_data_NameError)+
qed

text \<open>With an API that answers the probe and the statistics query, the run ends through
  the generic handler of the loop, having sent nothing.\<close>

lemma DHT11Simulator_run_example:
  "map snd (trace (snd (DHT11Simulator_run pi4 5 (answering (Response 200))))) =
     [Log Info ''Starting DHT11 sensor simulation...'', Log Info ''API URL'',
      Log Info ''Device ID'', Log Info ''Interval'',
      HttpGet ''http://localhost:3000/dht11-sensor/health'',
      Log Info ''API connection successful'',
      HttpGet ''http://localhost:3000/dht11-sensor/stats/pi4-device-001?hours=1'',
      Log Info ''Stats'', Log Error ''Unexpected error'']"
  by (simp add: DHT11Simulator_run_def Let_def test_api_connection_def get_stats_def
        sidecar_get_def session_get_def and_then_def DHT11Simulator_loop_NameError
        answering_def calm_def pi4_def)

section \<open>A failed preflight ends the process\<close>

lemma refused_logger [simp]: "refused (logger l m w) = refused w"
  by (simp add: refused_def)

lemma test_api_connection_refused:
  assumes "refused w"
  shows "fst (test_api_connection path self w) = Inr False"
    and "reads (snd (test_api_connection path self w)) = reads w"
    and "requests (snd (test_api_connection path self w)) = Suc (requests w)"
proof -
  from assms consider "api w (requests w) = RequestException"
    | c where "c \<noteq> 200" "api w (requests w) = Response c"
    unfolding refused_def by blast
  then have "fst (test_api_connection path self w) = Inr False \<and>
    reads (snd (test_api_connection path self w)) = reads w \<and>
    requests (snd (test_api_connection path self w)) = Suc (requests w)"
    by cases (simp_all add: test_api_connection_def session_get_def)
  then show "fst (test_api_connection path self w) = Inr False"
    and "reads (snd (test_api_connection path self w)) = reads w"
    and "requests (snd (test_api_connection path self w)) = Suc (requests w)"
    by simp_all
qed

lemma DHT11Sensor_preflight:
  assumes "hardware w = None"
  shows "DHT11Sensor_main n w = DHT11Sensor_main 0 w"
    and "reads (snd (DHT11Sensor_main n w)) = reads w"
    and "requests (snd (DHT11Sensor_main n w)) = requests w"
    and "euid w = 0 \<longrightarrow> fst (DHT11Sensor_main n w) = 0"
  using assms by (simp_all add: DHT11Sensor_main_def DHT11Sensor_run_def initialize_sensor_def)

lemma DHT11Sensor_status: "fst (DHT11Sensor_main n w) \<noteq> 0 \<longleftrightarrow> euid w \<noteq> 0"
  by (simp add: DHT11Sensor_main_def)

lemma PiHealthMonitor_run_refused:
  assumes "refused w"
  obtains W where "\<And>k. PiHealthMonitor_run self k w = (None, W)"
    and "reads W = reads w" and "requests W = Suc (requests w)"
proof -
  let ?w0 = "logger Info ''Monitoring interval'' (logger Info ''Device ID''
     (logger Info ''API URL'' (logger Info ''Starting Raspberry Pi 4 health monitoring...'' w)))"
  have r: "refused ?w0" using assms by simp
  obtain w1 where t: "test_api_connection ''/pi-health/health'' self ?w0 = (Inr False, w1)"
    using test_api_connection_refused(1) [OF r, of "''/pi-health/health''" self]
    by (metis prod.collapse)
  have w1: "reads w1 = reads w" "requests w1 = Suc (requests w)"
    using test_api_connection_refused(2,3) [OF r, of "''/pi-health/health''" self] t
    by simp_all
  have run: "PiHealthMonitor_run self k w =
      (None, logger Error ''Cannot connect to API. Exiting.'' w1)" for k
    by (simp add: PiHealthMonitor_run_def Let_def t)
  show thesis
    by (rule that [of "logger Error ''Cannot connect to API. Exiting.'' w1"])
       (simp_all add: run w1)
qed

lemma PiHealthMonitor_preflight:
  assumes "refused w"
  shows "PiHealthMonitor_main args n w = PiHealthMonitor_main args 0 w"
    and "fst (PiHealthMonitor_main args n w) = 0"
    and "reads (snd (PiHealthMonitor_main args n w)) = reads w"
    and "requests (snd (PiHealthMonitor_main args n w)) = Suc (requests w)"
proof -
  define w' where "w' = (if euid w \<noteq> 0
      then logger Warning ''This script should be run as root for full system access'' w
      else w)"
  have r: "refused w'" using assms by (simp add: w'_def)
  have c: "reads w' = reads w" "requests w' = requests w" by (simp_all add: w'_def)
  obtain W where run: "\<And>k. PiHealthMonitor_run args k w' = (None, W)"
    and W: "reads W = reads w'" "requests W = Suc (requests w')"
    using PiHealthMonitor_run_refused [OF r, of args] by blast
  have "PiHealthMonitor_main args k w = exit_status (PiHealthMonitor_run args k w')" for k
    by (simp only: PiHealthMonitor_main_def w'_def)
  then have m: "PiHealthMonitor_main args k w = (0, W)" for k
    by (simp add: run exit_status_def)
  show "PiHealthMonitor_main args n w = PiHealthMonitor_main args 0 w"
    and "fst (PiHealthMonitor_main args n w) = 0"
    and "reads (snd (PiHealthMonitor_main args n w)) = reads w"
    and "requests (snd (PiHealthMonitor_main args n w)) = Suc (requests w)"
    by (simp_all add: m W c)
qed

lemma DHT11Simulator_preflight:
  assumes "refused w"
  shows "DHT11Simulator_main args n w = DHT11Simulator_main args 0 w"
    and "fst (DHT11Simulator_main args n w) = 0"
    and "reads (snd (DHT11Simulator_main args n w)) = reads w"
    and "requests (snd (DHT11Simulator_main args n w)) = Suc (requests w)"
proof -
  let ?w0 = "logger Info ''Interval'' (logger Info ''Device ID'' (logger Info ''API URL''
                       (logger Info ''Starting DHT11 sensor simulation...'' w)))"
  have r: "refused ?w0" using assms by simp
  obtain w1 where t: "test_api_connection ''/dht11-sensor/health'' args ?w0 = (Inr False, w1)"
    using test_api_connection_refused(1) [OF r, of "''/dht11-sensor/health''" args]
    by (metis prod.collapse)
  have w1: "reads w1 = reads w" "requests w1 = Suc (requests w)"
    using test_api_connection_refused(2,3) [OF r, of "''/dht11-sensor/health''" args] t
    by simp_all
  have m: "DHT11Simulator_main args k w =
      (0, logger Error ''Cannot connect to API. Exiting.'' w1)" for k
    by (simp add: DHT11Simulator_main_def DHT11Simulator_run_def Let_def t exit_status_def)
  show "DHT11Simulator_main args n w = DHT11Simulator_main args 0 w"
    and "fst (DHT11Simulator_main args n w) = 0"
    and "reads (snd (DHT11Simulator_main args n w)) = reads w"
    and "requests (snd (DHT11Simulator_main args n w)) = Suc (requests w)"
    by (simp_all add: m w1)
qed

lemma PiHealthSimulator_preflight:
  assumes "refused w"
  shows "PiHealthSimulator_main args n w = PiHealthSimulator_main args 0 w"
    and "fst (PiHealthSimulator_main args n w) = 0"
    and "reads (snd (PiHealthSimulator_main args n w)) = reads w"
    and "requests (snd (PiHealthSimulator_main args n w)) = Suc (requests w)"
proof -
  let ?w0 = "logger Info ''Interval'' (logger Info ''Device ID'' (logger Info ''API URL''
                       (logger Info ''Starting Pi health simulation...'' w)))"
  have r: "refused ?w0" using assms by simp
  obtain w1 where t: "test_api_connection ''/pi-health/health'' args ?w0 = (Inr False, w1)"
    using test_api_connection_refused(1) [OF r, of "''/pi-health/health''" args]
    by (metis prod.collapse)
  have w1: "reads w1 = reads w" "requests w1 = Suc (requests w)"
    using test_api_connection_refused(2,3) [OF r, of "''/pi-health/health''" args] t
    by simp_all
  have m: "PiHealthSimulator_main args k w =
      (0, logger Error ''Cannot connect to API. Exiting.'' w1)" for k
    by (simp add: PiHealthSimulator_main_def PiHealthSimulator_run_def Let_def t exit_status_def)
  show "PiHealthSimulator_main args n w = PiHealthSimulator_main args 0 w"
    and "fst (PiHealthSimulator_main args n w) = 0"
    and "reads (snd (PiHealthSimulator_main args n w)) = reads w"
    and "requests (snd (PiHealthSimulator_main args n w)) = Suc (requests w)"
    by (simp_all add: m w1)
qed

text \<open>
  Claim C6 as it stands fails: after a failed preflight the process ends with exit
  status 0, in the sensor agent (run as root) and in the host agent alike.
\<close>

theorem C6_exit_status_counterexample:
  "\<not> (\<forall>n w. hardware w = None \<longrightarrow> fst (DHT11Sensor_main n w) \<noteq> 0) \<and>
   \<not> (\<forall>args n w. refused w \<longrightarrow> fst (PiHealthMonitor_main args n w) \<noteq> 0)"
proof (rule conjI)
  have "hardware calm = None \<and> fst (DHT11Sensor_main 3 calm) = 0"
    by (simp add: DHT11Sensor_main_def calm_def)
  then show "\<not> (\<forall>n w. hardware w = None \<longrightarrow> fst (DHT11Sensor_main n w) \<noteq> 0)"
    by blast
next
  have r: "refused (answering RequestException)"
    by (simp add: refused_def answering_def)
  have "fst (PiHealthMonitor_main pi4 3 (answering RequestException)) = 0"
    by (rule PiHealthMonitor_preflight(2) [OF r])
  with r show "\<not> (\<forall>args n w. refused w \<longrightarrow> fst (PiHealthMonitor_main args n w) \<noteq> 0)"
    by blast
qed

text \<open>
  Claim C6, amended. A failed preflight is terminal: when the sensor cannot be
  initialised (sensor agent) or the API refuses the health probe (host agent and both
  simulators), the process ends as it would with no cycle allowed at all, having made
  no acquisition and no request but the probe, and its exit status is 0. The sensor
  agent ends with a non-zero status exactly when it is not run as root, which is
  checked before the preflight.
\<close>

theorem C6_preflight_terminal:
  "(hardware w = None \<longrightarrow>
      DHT11Sensor_main n w = DHT11Sensor_main 0 w \<and>
      reads (snd (DHT11Sensor_main n w)) = reads w \<and>
      requests (snd (DHT11Sensor_main n w)) = requests w \<and>
      (euid w = 0 \<longrightarrow> fst (DHT11Sensor_main n w) = 0)) \<and>
   (fst (DHT11Sensor_main n w) \<noteq> 0 \<longleftrightarrow> euid w \<noteq> 0) \<and>
   (refused w \<longrightarrow>
      (PiHealthMonitor_main args n w = PiHealthMonitor_main args 0 w \<and>
       fst (PiHealthMonitor_main args n w) = 0 \<and>
       reads (snd (PiHealthMonitor_main args n w)) = reads w \<and>
       requests (snd (PiHealthMonitor_main args n w)) = Suc (requests w)) \<and>
      (DHT11Simulator_main args n w = DHT11Simulator_main args 0 w \<and>
       fst (DHT11Simulator_main args n w) = 0 \<and>
       reads (snd (DHT11Simulator_main args n w)) = reads w \<and>
       requests (snd (DHT11Simulator_main args n w)) = Suc (requests w)) \<and>
      (PiHealthSimulator_main args n w = PiHealthSimulator_main args 0 w \<and>
       fst (PiHealthSimulator_main args n w) = 0 \<and>
       reads (snd (PiHealthSimulator_main args n w)) = reads w \<and>
       requests (snd (PiHealthSimulator_main args n w)) = Suc (requests w)))"
proof (intro conjI impI)
  assume h: "hardware w = None"
  show "DHT11Sensor_main n w = DHT11Sensor_main 0 w"
    by (rule DHT11Sensor_preflight(1) [OF h])
  show "reads (snd (DHT11Sensor_main n w)) = reads w"
    by (rule DHT11Sensor_preflight(2) [OF h])
  show "requests (snd (DHT11Sensor_main n w)) = requests w"
    by (rule DHT11Sensor_preflight(3) [OF h])
  assume "euid w = 0"
  then show "fst (DHT11Sensor_main n w) = 0"
    using DHT11Sensor_preflight(4) [OF h, of n] by simp
next
  show "fst (DHT11Sensor_main n w) \<noteq> 0 \<longleftrightarrow> euid w \<noteq> 0" by (rule DHT11Sensor_status)
next
  assume r: "refused w"
  show "PiHealthMonitor_main args n w = PiHealthMonitor_main args 0 w"
    by (rule PiHealthMonitor_preflight(1) [OF r])
  show "fst (PiHealthMonitor_main args n w) = 0"
    by (rule PiHealthMonitor_preflight(2) [OF r])
  show "reads (snd (PiHealthMonitor_main args n w)) = reads w"
    by (rule PiHealthMonitor_preflight(3) [OF r])
  show "requests (snd (PiHealthMonitor_main args n w)) = Suc (requests w)"
    by (rule PiHealthMonitor_preflight(4) [OF r])
  show "DHT11Simulator_main args n w = DHT11Simulator_main args 0 w"
    by (rule DHT11Simulator_preflight(1) [OF r])
  show "fst (DHT11Simulator_main args n w) = 0"
    by (rule DHT11Simulator_preflight(2) [OF r])
  show "reads (snd (DHT11Simulator_main args n w)) = reads w"
    by (rule DHT11Simulator_preflight(3) [OF r])
  show "requests (snd (DHT11Simulator_main args n w)) = Suc (requests w)"
    by (rule DHT11Simulator_preflight(4) [OF r])
  show "PiHealthSimulator_main args n w = PiHealthSimulator_main args 0 w"
    by (rule PiHealthSimulator_preflight(1) [OF r])
  show "fst (PiHealthSimulator_main args n w) = 0"
    by (rule PiHealthSimulator_preflight(2) [OF r])
  show "reads (snd (PiHealthSimulator_main args n w)) = reads w"
    by (rule PiHealthSimulator_preflight(3) [OF r])
  show "requests (snd (PiHealthSimulator_main args n w)) = Suc (requests w)"
    by (rule PiHealthSimulator_preflight(4) [OF r])
qed

theorem C6_preflight_terminal_witness:
  "hardware calm = None \<and> euid calm = 0 \<and> refused (answering (Response 503)) \<and>
   DHT11Sensor_main 7 calm = DHT11Sensor_main 0 calm \<and>
   fst (DHT11Sensor_main 7 calm) = 0 \<and>
   PiHealthMonitor_main pi4 7 (answering (Response 503)) =
     PiHealthMonitor_main pi4 0 (answering (Response 503)) \<and>
   fst (PiHealthMonitor_main pi4 7 (answering (Response 503))) = 0 \<and>
   fst (DHT11Simulator_main pi4 7 (answering (Response 503))) = 0 \<and>
   fst (PiHealthSimulator_main pi4 7 (answering (Response 503))) = 0"
proof -
  have h: "hardware calm = None" "euid calm = 0" by (simp_all add: calm_def)
  have r: "refused (answering (Response 503))" by (simp add: refused_def answering_def)
  have a: "DHT11Sensor_main 7 calm = DHT11Sensor_main 0 calm \<and>
      fst (DHT11Sensor_main 7 calm) = 0"
    using h C6_preflight_terminal [of calm 7 pi4] by blast
  have b: "PiHealthMonitor_main pi4 7 (answering (Response 503)) =
     PiHealthMonitor_main pi4 0 (answering (Response 503)) \<and>
   fst (PiHealthMonitor_main pi4 7 (answering (Response 503))) = 0 \<and>
   fst (DHT11Simulator_main pi4 7 (answering (Response 503))) = 0 \<and>
   fst (PiHealthSimulator_main pi4 7 (answering (Response 503))) = 0"
    using r C6_preflight_terminal [of "answering (Response 503)" 7 pi4] by blast
  from h r a b show ?thesis by blast
qed

section \<open>The sidecar queries of the host agent follow the wall clock\<close>

lemma status_times_simps [simp]:
  "status_times url [] = []"
  "status_times url (tr @ tr') = status_times url tr @ status_times url tr'"
  "status_times url ((t, Log l m) # tr) = status_times url tr"
  "status_times url ((t, Sleep s) # tr) = status_times url tr"
  "status_times url ((t, HttpPost u p) # tr) = status_times url tr"
  "status_times url ((t, Measure k) # tr) = status_times url tr"
  "status_times url ((t, HttpGet u) # tr) =
     (if u = url then t # status_times url tr else status_times url tr)"
  by (auto simp: status_times_def)

lemma mod_py_nonneg: "0 \<le> mod_py x 300"
proof -
  have "of_int \<lfloor>x / 300\<rfloor> \<le> x / 300" by (rule of_int_floor_le)
  then show ?thesis by (simp add: mod_py_def)
qed

lemma windows_differ:
  assumes "mod_py t 300 < 30" "mod_py t' 300 < 30" "t + 30 \<le> t'"
  shows "window t \<noteq> window t'"
proof
  assume "window t = window t'"
  then have "mod_py t' 300 - mod_py t 300 = t' - t" by (simp add: mod_py_def window_def)
  with assms mod_py_nonneg [of t] show False by linarith
qed

lemma quiet_refl [simp]: "quiet url w w" by (simp add: quiet_def)

lemma quiet_trans: "quiet url w w1 \<Longrightarrow> quiet url w1 w2 \<Longrightarrow> quiet url w w2"
  by (auto simp: quiet_def punctual_def)

lemma quiet_logger [simp]: "quiet url w (logger l m w)"
  by (simp add: quiet_def)

lemma quiet_logger': "quiet url w w1 \<Longrightarrow> quiet url w (logger l m w1)"
  by (simp add: quiet_def)

lemma quiet_getters:
  "quiet url w (snd (get_cpu_temperature src w))"
  "quiet url w (snd (get_cpu_usage src w))"
  "quiet url w (snd (get_memory_usage src w))"
  "quiet url w (snd (get_disk_usage src w))"
  "quiet url w (snd (get_network_usage src w))"
  "quiet url w (snd (get_system_load src w))"
  "quiet url w (snd (get_uptime src w))"
  "quiet url w (snd (get_cpu_voltage src w))"
  "quiet url w (snd (get_cpu_frequency src w))"
  by (auto simp: quiet_def punctual_def get_cpu_temperature_def get_cpu_usage_def get_memory_usage_def
      get_disk_usage_def get_network_usage_def get_system_load_def get_uptime_def get_cpu_voltage_def
      get_cpu_frequency_def add_nonneg_nonneg split: option.splits)


lemma quiet_collect_health_data: "quiet url w (snd (collect_health_data self w))"
proof -
  define src where "src = metrics w (reads w)"
  define w0 where "w0 = w\<lparr>reads := Suc (reads w)\<rparr>"
  obtain cpu_temp w1 where g1: "get_cpu_temperature src w0 = (cpu_temp, w1)" by (rule prod.exhaust)
  obtain cpu_usage w2 where g2: "get_cpu_usage src w1 = (cpu_usage, w2)" by (rule prod.exhaust)
  obtain memory_usage w3 where g3: "get_memory_usage src w2 = (memory_usage, w3)" by (rule prod.exhaust)
  obtain disk w4 where g4: "get_disk_usage src w3 = (disk, w4)" by (rule prod.exhaust)
  obtain net w5 where g5: "get_network_usage src w4 = (net, w5)" by (rule prod.exhaust)
  obtain load w6 where g6: "get_system_load src w5 = (load, w6)" by (rule prod.exhaust)
  obtain uptime w7 where g7: "get_uptime src w6 = (uptime, w7)" by (rule prod.exhaust)
  obtain voltage w8 where g8: "get_cpu_voltage src w7 = (voltage, w8)" by (rule prod.exhaust)
  obtain frequency w9 where g9: "get_cpu_frequency src w8 = (frequency, w9)" by (rule prod.exhaust)
  have s: "snd (collect_health_data self w) = logger Info ''Health data collected'' w9"
    using g1 g2 g3 g4 g5 g6 g7 g8 g9
    by (simp add: collect_health_data_def Let_def split_beta src_def w0_def)
  have q0: "quiet url w w0" by (simp add: quiet_def w0_def punctual_def)
  have q1: "quiet url w0 w1" using quiet_getters(1) [of url w0 src] g1 by simp
  have q2: "quiet url w1 w2" using quiet_getters(2) [of url w1 src] g2 by simp
  have q3: "quiet url w2 w3" using quiet_getters(3) [of url w2 src] g3 by simp
  have q4: "quiet url w3 w4" using quiet_getters(4) [of url w3 src] g4 by simp
  have q5: "quiet url w4 w5" using quiet_getters(5) [of url w4 src] g5 by simp
  have q6: "quiet url w5 w6" using quiet_getters(6) [of url w5 src] g6 by simp
  have q7: "quiet url w6 w7" using quiet_getters(7) [of url w6 src] g7 by simp
  have q8: "quiet url w7 w8" using quiet_getters(8) [of url w7 src] g8 by simp
  have q9: "quiet url w8 w9" using quiet_getters(9) [of url w8 src] g9 by simp
  have "quiet url w w9"
    by (rule quiet_trans [OF q0] quiet_trans [OF q1] quiet_trans [OF q2] quiet_trans [OF q3]
          quiet_trans [OF q4] quiet_trans [OF q5] quiet_trans [OF q6] quiet_trans [OF q7]
          quiet_trans [OF q8] q9)+
  then show ?thesis unfolding s by (rule quiet_logger')
qed

lemma collect_health_data_truthy: "truthy (fst (collect_health_data self w))"
  by (simp add: collect_health_data_def Let_def split_beta split: option.splits)

lemma quiet_send_health_data: "quiet url w (snd (send_health_data self payload w))"
  by (auto simp: send_health_data_def session_post_def quiet_def punctual_def
      split: option.splits http_result.splits)

lemma recommendations_url_differs:
  "api_url self @ ''/pi-health/recommendations/'' @ device_id self \<noteq> status_url self"
  by (simp add: status_url_def)

lemma quiet_get_recommendations: "quiet (status_url self) w (snd (get_recommendations self w))"
  using recommendations_url_differs [of self]
  by (auto simp: get_recommendations_def sidecar_get_def session_get_def quiet_def punctual_def
      split: http_result.splits)

lemma get_device_status_effect:
  "latency (snd (get_device_status self w)) = latency w \<and>
   (punctual w \<longrightarrow> clock w \<le> clock (snd (get_device_status self w))) \<and>
   status_times (status_url self) (trace (snd (get_device_status self w))) =
     status_times (status_url self) (trace w) @ [clock w]"
  by (auto simp: get_device_status_def sidecar_get_def session_get_def punctual_def status_url_def
      split: http_result.splits)


lemma quiet_at_check: "quiet url w (snd (at_check self w))"
proof -
  obtain hd w1 where c: "collect_health_data self w = (hd, w1)" by (rule prod.exhaust)
  have 1: "quiet url w w1" using quiet_collect_health_data [of url w self] c by simp
  have 2: "quiet url w1 (snd (send_health_data self hd w1))" by (rule quiet_send_health_data)
  show ?thesis using quiet_trans [OF 1 2] by (simp add: at_check_def c)
qed

lemma sidecars_effect:
  "latency (snd (and_then (get_device_status self w) (get_recommendations self))) = latency w \<and>
   (punctual w \<longrightarrow> clock w \<le> clock (snd (and_then (get_device_status self w) (get_recommendations self)))) \<and>
   status_times (status_url self) (trace (snd (and_then (get_device_status self w) (get_recommendations self)))) =
     status_times (status_url self) (trace w) @ [clock w]"
proof -
  obtain e w1 where d: "get_device_status self w = (e, w1)" by (rule prod.exhaust)
  have 1: "latency w1 = latency w" "punctual w \<longrightarrow> clock w \<le> clock w1"
    "status_times (status_url self) (trace w1) = status_times (status_url self) (trace w) @ [clock w]"
    using get_device_status_effect [of self w] d by simp_all
  have 2: "quiet (status_url self) w1 (snd (get_recommendations self w1))"
    by (rule quiet_get_recommendations)
  have p: "punctual w \<Longrightarrow> punctual w1" using 1(1) by (simp add: punctual_def)
  show ?thesis
  proof (cases e)
    case None
    then show ?thesis using 1 2 p by (auto simp: and_then_def d quiet_def)
  next
    case (Some x)
    then show ?thesis using 1 by (simp add: and_then_def d)
  qed
qed

lemma PiHealthMonitor_report_effect:
  "latency (snd (PiHealthMonitor_report self w)) = latency w \<and>
   (punctual w \<longrightarrow> clock w \<le> clock (snd (at_check self w)) \<and>
      clock (snd (at_check self w)) \<le> clock (snd (PiHealthMonitor_report self w))) \<and>
   status_times (status_url self) (trace (snd (PiHealthMonitor_report self w))) =
     status_times (status_url self) (trace w) @
     (if fst (at_check self w) = Inr True \<and>
         mod_py (clock (snd (at_check self w))) 300 < real_of_int (interval self)
      then [clock (snd (at_check self w))] else [])"
proof -
  obtain hd w1 where c: "collect_health_data self w = (hd, w1)" by (rule prod.exhaust)
  have t: "truthy hd" using collect_health_data_truthy [of self w] c by simp
  obtain r w2 where s: "send_health_data self hd w1 = (r, w2)" by (rule prod.exhaust)
  have ch: "at_check self w = (r, w2)" by (simp add: at_check_def c s)
  have q: "quiet (status_url self) w w2" using quiet_at_check [of "status_url self" w self] ch by simp
  have p: "punctual w \<Longrightarrow> punctual w2" using q by (simp add: punctual_def quiet_def)
  note sc = sidecars_effect [of self w2]
  show ?thesis
  proof (cases r)
    case (Inl e)
    then show ?thesis using q by (simp add: PiHealthMonitor_report_def c s t ch quiet_def)
  next
    case (Inr success)
    show ?thesis
    proof (cases "success \<and> mod_py (clock w2) 300 < real_of_int (interval self)")
      case True
      then have "PiHealthMonitor_report self w =
          and_then (get_device_status self w2) (get_recommendations self)"
        by (simp add: PiHealthMonitor_report_def c s t Inr)
      then show ?thesis using True q sc p by (auto simp: ch Inr quiet_def)
    next
      case False
      then have "snd (PiHealthMonitor_report self w) = w2 \<or>
          snd (PiHealthMonitor_report self w) =
            logger Warning ''Failed to send health data to API, but continuing...'' w2"
        by (auto simp: PiHealthMonitor_report_def c s t Inr)
      then show ?thesis using False q by (auto simp: ch Inr quiet_def)
    qed
  qed
qed


lemma PiHealthMonitor_cycle_effect:
  assumes i: "interval self = 30" and p: "punctual w"
    and o: "on_time (status_url self) w" and r: "rested (status_url self) w"
  shows "punctual (snd (PiHealthMonitor_cycle self w))"
    and "on_time (status_url self) (snd (PiHealthMonitor_cycle self w))"
    and "fst (PiHealthMonitor_cycle self w) = None \<longrightarrow>
           rested (status_url self) (snd (PiHealthMonitor_cycle self w))"
proof -
  let ?url = "status_url self"
  obtain e wr where rep: "PiHealthMonitor_report self w = (e, wr)" by (rule prod.exhaust)
  define T where "T = clock (snd (at_check self w))"
  define new where "new = (if fst (at_check self w) = Inr True \<and> mod_py T 300 < 30 then [T] else [])"
  from PiHealthMonitor_report_effect [of self w] rep i p
  have l: "latency wr = latency w" and c: "clock w \<le> T" "T \<le> clock wr"
    and st: "status_times ?url (trace wr) = status_times ?url (trace w) @ new"
    by (simp_all add: T_def new_def)
  have pr: "punctual wr" using p l by (simp add: punctual_def)
  have fresh: "window t \<noteq> window T" if "t \<in> set (status_times ?url (trace w))" "mod_py T 300 < 30" for t
  proof -
    from that o have m: "mod_py t 300 < 30" by (simp add: on_time_def)
    from that r c have d: "t + 30 \<le> T" by (force simp: rested_def)
    from m that(2) d show ?thesis by (rule windows_differ)
  qed
  have owr: "on_time ?url wr"
  proof (cases "fst (at_check self w) = Inr True \<and> mod_py T 300 < 30")
    case True
    then have n: "new = [T]" and m: "mod_py T 300 < 30" by (simp_all add: new_def)
    have "window T \<notin> window ` set (status_times ?url (trace w))"
    proof
      assume "window T \<in> window ` set (status_times ?url (trace w))"
      then obtain t where t: "t \<in> set (status_times ?url (trace w))" "window T = window t"
        by (rule imageE)
      from fresh [OF t(1) m] t(2) show False by simp
    qed
    then show ?thesis using o m by (simp add: on_time_def st n)
  next
    case False
    then have "new = []" by (simp add: new_def)
    then show ?thesis using o by (simp add: on_time_def st)
  qed
  have cyc: "PiHealthMonitor_cycle self w =
      (case e of Some x \<Rightarrow> (Some x, wr) | None \<Rightarrow> (None, sleep 30 wr))"
    by (simp add: PiHealthMonitor_cycle_def rep and_then_def time_sleep_def i split: option.splits)
  show "punctual (snd (PiHealthMonitor_cycle self w))"
    using pr by (simp add: cyc punctual_def split: option.splits)
  show "on_time ?url (snd (PiHealthMonitor_cycle self w))"
    using owr by (simp add: cyc on_time_def split: option.splits)
  show "fst (PiHealthMonitor_cycle self w) = None \<longrightarrow> rested ?url (snd (PiHealthMonitor_cycle self w))"
  proof
    assume "fst (PiHealthMonitor_cycle self w) = None"
    then have e: "e = None" by (simp add: cyc split: option.splits)
    have "0 \<le> latency wr (ops wr)" using pr by (simp add: punctual_def)
    then have "t + 30 \<le> clock wr + 30 + latency wr (ops wr)"
      if "t \<in> set (status_times ?url (trace w) @ new)" for t
      using that r c by (fastforce simp: rested_def new_def split: if_splits)
    then show "rested ?url (snd (PiHealthMonitor_cycle self w))"
      by (simp add: cyc e rested_def st)
  qed
qed

lemma PiHealthMonitor_loop_on_time:
  assumes i: "interval self = 30"
  shows "punctual w \<Longrightarrow> on_time (status_url self) w \<Longrightarrow> rested (status_url self) w
    \<Longrightarrow> on_time (status_url self) (snd (PiHealthMonitor_loop self n w))"
proof (induction n arbitrary: w)
  case 0
  then show ?case by simp
next
  case (Suc n)
  obtain e w' where c: "PiHealthMonitor_cycle self w = (e, w')" by (rule prod.exhaust)
  note ce = PiHealthMonitor_cycle_effect [OF i Suc.prems(1) Suc.prems(2) Suc.prems(3)]
  show ?case
  proof (cases e)
    case None
    with ce c have "punctual w'" "on_time (status_url self) w'" "rested (status_url self) w'"
      by simp_all
    then have "on_time (status_url self) (snd (PiHealthMonitor_loop self n w'))"
      by (rule Suc.IH)
    then show ?thesis by (simp add: c None)
  next
    case (Some x)
    with ce(2) c show ?thesis by simp
  qed
qed


lemma offline_trans: "offline w w1 \<Longrightarrow> offline w1 w2 \<Longrightarrow> offline w w2"
  by (simp add: offline_def)

lemma offline_getters:
  "offline w (snd (get_cpu_temperature src w))"
  "offline w (snd (get_cpu_usage src w))"
  "offline w (snd (get_memory_usage src w))"
  "offline w (snd (get_disk_usage src w))"
  "offline w (snd (get_network_usage src w))"
  "offline w (snd (get_system_load src w))"
  "offline w (snd (get_uptime src w))"
  "offline w (snd (get_cpu_voltage src w))"
  "offline w (snd (get_cpu_frequency src w))"
  by (auto simp: offline_def get_cpu_temperature_def get_cpu_usage_def get_memory_usage_def
      get_disk_usage_def get_network_usage_def get_system_load_def get_uptime_def get_cpu_voltage_def
      get_cpu_frequency_def elapse_def split: option.splits)

lemma offline_collect_health_data: "offline w (snd (collect_health_data self w))"
proof -
  define src where "src = metrics w (reads w)"
  define w0 where "w0 = w\<lparr>reads := Suc (reads w)\<rparr>"
  obtain cpu_temp w1 where g1: "get_cpu_temperature src w0 = (cpu_temp, w1)" by (rule prod.exhaust)
  obtain cpu_usage w2 where g2: "get_cpu_usage src w1 = (cpu_usage, w2)" by (rule prod.exhaust)
  obtain memory_usage w3 where g3: "get_memory_usage src w2 = (memory_usage, w3)" by (rule prod.exhaust)
  obtain disk w4 where g4: "get_disk_usage src w3 = (disk, w4)" by (rule prod.exhaust)
  obtain net w5 where g5: "get_network_usage src w4 = (net, w5)" by (rule prod.exhaust)
  obtain load w6 where g6: "get_system_load src w5 = (load, w6)" by (rule prod.exhaust)
  obtain uptime w7 where g7: "get_uptime src w6 = (uptime, w7)" by (rule prod.exhaust)
  obtain voltage w8 where g8: "get_cpu_voltage src w7 = (voltage, w8)" by (rule prod.exhaust)
  obtain frequency w9 where g9: "get_cpu_frequency src w8 = (frequency, w9)" by (rule prod.exhaust)
  have s: "snd (collect_health_data self w) = logger Info ''Health data collected'' w9"
    using g1 g2 g3 g4 g5 g6 g7 g8 g9
    by (simp add: collect_health_data_def Let_def split_beta src_def w0_def)
  have q0: "offline w w0" by (simp add: offline_def w0_def)
  have q1: "offline w0 w1" using offline_getters(1) [of w0 src] g1 by simp
  have q2: "offline w1 w2" using offline_getters(2) [of w1 src] g2 by simp
  have q3: "offline w2 w3" using offline_getters(3) [of w2 src] g3 by simp
  have q4: "offline w3 w4" using offline_getters(4) [of w3 src] g4 by simp
  have q5: "offline w4 w5" using offline_getters(5) [of w4 src] g5 by simp
  have q6: "offline w5 w6" using offline_getters(6) [of w5 src] g6 by simp
  have q7: "offline w6 w7" using offline_getters(7) [of w6 src] g7 by simp
  have q8: "offline w7 w8" using offline_getters(8) [of w7 src] g8 by simp
  have q9: "offline w8 w9" using offline_getters(9) [of w8 src] g9 by simp
  have "offline w w9"
    by (rule offline_trans [OF q0] offline_trans [OF q1] offline_trans [OF q2] offline_trans [OF q3]
          offline_trans [OF q4] offline_trans [OF q5] offline_trans [OF q6] offline_trans [OF q7]
          offline_trans [OF q8] q9)+
  then show ?thesis unfolding s by (simp add: offline_def)
qed

lemma at_check_success: "fst (at_check self w) = Inr True \<longleftrightarrow> api w (requests w) = Response 201"
proof -
  obtain hd w1 where c: "collect_health_data self w = (hd, w1)" by (rule prod.exhaust)
  have t: "truthy hd" using collect_health_data_truthy [of self w] c by simp
  have o: "api w1 = api w" "requests w1 = requests w"
    using offline_collect_health_data [of w self] c by (simp_all add: offline_def)
  obtain p where p: "hd = Some p" using t by (cases hd) auto
  show ?thesis
    using t by (simp add: at_check_def c p o send_health_data_def session_post_def split: http_result.splits)
qed

lemma at_check_calm_clock: "clock (snd (at_check pi4 (answering r))) = 0"
  by (simp add: at_check_def collect_health_data_def Let_def split_beta answering_def calm_def failing_def
      get_cpu_temperature_def get_cpu_usage_def get_memory_usage_def
      get_disk_usage_def get_network_usage_def get_system_load_def get_uptime_def get_cpu_voltage_def
      get_cpu_frequency_def send_health_data_def session_post_def split: http_result.splits)


text \<open>
  Claim C7 as it stands fails: with the API answering 500 to the report, the cycle that
  starts at wall-clock second 0 with interval 30 reads a time whose remainder modulo
  300 is below the interval, and yet makes no sidecar query.
\<close>

theorem C7_failed_report_counterexample:
  "mod_py (clock (snd (at_check pi4 (answering (Response 500))))) 300
     < real_of_int (interval pi4) \<and>
   status_times (status_url pi4)
     (trace (snd (PiHealthMonitor_report pi4 (answering (Response 500))))) = []"
proof -
  have a: "api (answering (Response 500)) (requests (answering (Response 500))) = Response 500"
    by (simp add: answering_def)
  have t: "status_times (status_url pi4) (trace (answering (Response 500))) = []"
    by (simp add: answering_def calm_def)
  have f: "fst (at_check pi4 (answering (Response 500))) \<noteq> Inr True"
    by (simp add: at_check_success a)
  have 1: "mod_py (clock (snd (at_check pi4 (answering (Response 500))))) 300
     < real_of_int (interval pi4)"
    using at_check_calm_clock [of "Response 500"] by (simp add: mod_py_def pi4_def)
  have 2: "status_times (status_url pi4)
     (trace (snd (PiHealthMonitor_report pi4 (answering (Response 500))))) = []"
    using PiHealthMonitor_report_effect [of pi4 "answering (Response 500)"] f t by simp
  from 1 2 show ?thesis by (rule conjI)
qed

text \<open>
  Claim C7, amended. In a cycle of the host agent the sidecar queries are made exactly
  when the sample was reported with status 201 and the wall-clock time read after the
  report has a remainder modulo 300 below the interval; the status query then starts at
  that time. With interval 30 and a clock that does not run backwards, every sidecar
  invocation of the loop starts at a time whose remainder modulo 300 is below 30, and
  no two of them fall into the same 300-second window.
\<close>

theorem C7_sidecars_follow_clock:
  "status_times (status_url self) (trace (snd (PiHealthMonitor_report self w))) =
     status_times (status_url self) (trace w) @
     (if api w (requests w) = Response 201 \<and>
         mod_py (clock (snd (at_check self w))) 300 < real_of_int (interval self)
      then [clock (snd (at_check self w))] else []) \<and>
   (interval self = 30 \<and> punctual w \<and> status_times (status_url self) (trace w) = [] \<longrightarrow>
      (\<forall>t \<in> set (status_times (status_url self) (trace (snd (PiHealthMonitor_loop self n w)))).
         mod_py t 300 < 30) \<and>
      distinct (map window
        (status_times (status_url self) (trace (snd (PiHealthMonitor_loop self n w))))))"
proof (rule conjI)
  show "status_times (status_url self) (trace (snd (PiHealthMonitor_report self w))) =
     status_times (status_url self) (trace w) @
     (if api w (requests w) = Response 201 \<and>
         mod_py (clock (snd (at_check self w))) 300 < real_of_int (interval self)
      then [clock (snd (at_check self w))] else [])"
    using PiHealthMonitor_report_effect [of self w] by (simp add: at_check_success)
next
  show "interval self = 30 \<and> punctual w \<and> status_times (status_url self) (trace w) = [] \<longrightarrow>
      (\<forall>t \<in> set (status_times (status_url self) (trace (snd (PiHealthMonitor_loop self n w)))).
         mod_py t 300 < 30) \<and>
      distinct (map window
        (status_times (status_url self) (trace (snd (PiHealthMonitor_loop self n w)))))"
  proof
    assume a: "interval self = 30 \<and> punctual w \<and>
      status_times (status_url self) (trace w) = []"
    then have o: "on_time (status_url self) w" and r: "rested (status_url self) w"
      by (simp_all add: on_time_def rested_def)
    from a have "on_time (status_url self) (snd (PiHealthMonitor_loop self n w))"
      using PiHealthMonitor_loop_on_time [OF _ _ o r, of n] by simp
    then show "(\<forall>t \<in> set (status_times (status_url self)
        (trace (snd (PiHealthMonitor_loop self n w)))). mod_py t 300 < 30) \<and>
      distinct (map window
        (status_times (status_url self) (trace (snd (PiHealthMonitor_loop self n w)))))"
      by (simp add: on_time_def)
  qed
qed

theorem C7_sidecars_follow_clock_witness:
  "interval pi4 = 30 \<and> punctual (answering (Response 201)) \<and>
   status_times (status_url pi4) (trace (answering (Response 201))) = [] \<and>
   status_times (status_url pi4)
     (trace (snd (PiHealthMonitor_report pi4 (answering (Response 201))))) = [0] \<and>
   distinct (map window (status_times (status_url pi4)
     (trace (snd (PiHealthMonitor_loop pi4 12 (answering (Response 201)))))))"
proof -
  have i: "interval pi4 = 30" by (simp add: pi4_def)
  have p: "punctual (answering (Response 201))"
    by (simp add: punctual_def answering_def calm_def)
  have t: "status_times (status_url pi4) (trace (answering (Response 201))) = []"
    by (simp add: answering_def calm_def)
  have a: "api (answering (Response 201)) (requests (answering (Response 201))) = Response 201"
    by (simp add: answering_def)
  have m: "mod_py 0 300 < 30" by (simp add: mod_py_def)
  show ?thesis
    using i p t a m C7_sidecars_follow_clock [of pi4 "answering (Response 201)" 12]
    by (simp add: at_check_calm_clock)
qed

section \<open>The synthesizers: the model, its ranges, its inputs\<close>

lemma uniform_simps [simp]:
  "fst (uniform a b w) = a + (b - a) * rng w (draws w)"
  "snd (uniform a b w) = w\<lparr>draws := Suc (draws w)\<rparr>"
  by (simp_all add: uniform_def random_random_def)

lemma round_py_lower:
  assumes "of_int a / 10 ^ n \<le> x"
  shows "of_int a / 10 ^ n \<le> round_py x n"
proof -
  let ?y = "x * 10 ^ n"
  from assms have "of_int a \<le> ?y" by (simp add: pos_divide_le_eq)
  then have f: "a \<le> \<lfloor>?y\<rfloor>" by (simp add: le_floor_iff)
  have "of_int a \<le> (of_int (if ?y - of_int \<lfloor>?y\<rfloor> < 1 / 2 then \<lfloor>?y\<rfloor>
        else if ?y - of_int \<lfloor>?y\<rfloor> > 1 / 2 then \<lfloor>?y\<rfloor> + 1
        else if even \<lfloor>?y\<rfloor> then \<lfloor>?y\<rfloor> else \<lfloor>?y\<rfloor> + 1) :: real)"
    using f by auto
  then show ?thesis
    unfolding round_py_def Let_def by (rule divide_right_mono) simp
qed

lemma round_py_upper:
  assumes "x \<le> of_int b / 10 ^ n"
  shows "round_py x n \<le> of_int b / 10 ^ n"
proof -
  let ?y = "x * 10 ^ n"
  from assms have y: "?y \<le> of_int b" by (simp add: pos_le_divide_eq)
  then have f: "\<lfloor>?y\<rfloor> \<le> b" by (simp add: floor_le_iff)
  have g: "\<lfloor>?y\<rfloor> + 1 \<le> b" if "?y - of_int \<lfloor>?y\<rfloor> \<ge> 1 / 2"
  proof -
    from that have "of_int \<lfloor>?y\<rfloor> < ?y" by linarith
    with y have "(of_int \<lfloor>?y\<rfloor> :: real) < of_int b" by linarith
    then have "\<lfloor>?y\<rfloor> < b" by simp
    then show ?thesis by simp
  qed
  have "(of_int (if ?y - of_int \<lfloor>?y\<rfloor> < 1 / 2 then \<lfloor>?y\<rfloor>
        else if ?y - of_int \<lfloor>?y\<rfloor> > 1 / 2 then \<lfloor>?y\<rfloor> + 1
        else if even \<lfloor>?y\<rfloor> then \<lfloor>?y\<rfloor> else \<lfloor>?y\<rfloor> + 1) :: real) \<le> of_int b"
    using f g by (auto simp del: of_int_add)
  then show ?thesis
    unfolding round_py_def Let_def by (rule divide_right_mono) simp
qed

text \<open>Rounding to \<open>n\<close> digits keeps a clamped value between bounds that have \<open>n\<close> digits.\<close>

lemma round_py_diurnal:
  assumes "lo = of_int a / 10 ^ n" "hi = of_int b / 10 ^ n" "lo \<le> hi"
  shows "lo \<le> round_py (diurnal base amp ph noise lo hi hour) n \<and>
         round_py (diurnal base amp ph noise lo hi hour) n \<le> hi"
proof -
  let ?x = "diurnal base amp ph noise lo hi hour"
  have "of_int a / 10 ^ n \<le> ?x" using assms by (simp add: diurnal_def)
  from round_py_lower [OF this] have 1: "lo \<le> round_py ?x n" using assms by simp
  have "?x \<le> of_int b / 10 ^ n" using assms by (simp add: diurnal_def)
  from round_py_upper [OF this] have 2: "round_py ?x n \<le> hi" using assms by simp
  from 1 2 show ?thesis by (rule conjI)
qed

lemma generate_realistic_health_data_eq:
  "generate_realistic_health_data self w =
     (synthesized (device_id self) (real_of_int (now_hour w)) (clock w) (utcnow_isoformat_Z w)
        (\<lambda>k. rng w (draws w + k)), w\<lparr>draws := draws w + 12\<rparr>)"
  by (simp add: generate_realistic_health_data_def synthesized_def diurnal_def Let_def split_beta
        utcnow_isoformat_Z_def numeral_eq_Suc)

lemma synthesized_fields:
  "field ''cpuTemperature'' (synthesized dev hour now ts u) =
     Some (Num (round_py (diurnal 45 10 6 (- 2 + 4 * u 0) 20 85 hour) 2))"
  "field ''cpuUsage'' (synthesized dev hour now ts u) =
     Some (Num (round_py (diurnal 30 20 8 (- 5 + 10 * u 1) 5 95 hour) 2))"
  "field ''memoryUsage'' (synthesized dev hour now ts u) =
     Some (Num (round_py (diurnal 50 16 8 (- 3 + 6 * u 2) 20 90 hour) 2))"
  "field ''diskUsage'' (synthesized dev hour now ts u) =
     Some (Num (round_py (diurnal 60 0 0 (- 2 + 4 * u 3) 40 95 hour) 2))"
  "field ''loadAverage1m'' (synthesized dev hour now ts u) =
     Some (Num (round_py (max (1 / 10) (diurnal 30 20 8 (- 5 + 10 * u 1) 5 95 hour / 100 * 2
        + (- 0.5 + u 4))) 2))"
  by (simp_all add: synthesized_def Let_def)

lemma synthesized_ranges:
  "\<exists>t u' m d l.
     field ''cpuTemperature'' (synthesized dev hour now ts u) = Some (Num t) \<and>
     20 \<le> t \<and> t \<le> 85 \<and>
     field ''cpuUsage'' (synthesized dev hour now ts u) = Some (Num u') \<and>
     5 \<le> u' \<and> u' \<le> 95 \<and>
     field ''memoryUsage'' (synthesized dev hour now ts u) = Some (Num m) \<and>
     20 \<le> m \<and> m \<le> 90 \<and>
     field ''diskUsage'' (synthesized dev hour now ts u) = Some (Num d) \<and>
     40 \<le> d \<and> d \<le> 95 \<and>
     field ''loadAverage1m'' (synthesized dev hour now ts u) = Some (Num l) \<and>
     1 / 10 \<le> l"
proof -
  have 1: "20 = real_of_int 2000 / 10 ^ 2" "85 = real_of_int 8500 / 10 ^ 2"
    "5 = real_of_int 500 / 10 ^ 2" "95 = real_of_int 9500 / 10 ^ 2"
    "90 = real_of_int 9000 / 10 ^ 2" "40 = real_of_int 4000 / 10 ^ 2" by simp_all
  let ?t = "round_py (diurnal 45 10 6 (- 2 + 4 * u 0) 20 85 hour) 2"
  let ?u = "round_py (diurnal 30 20 8 (- 5 + 10 * u 1) 5 95 hour) 2"
  let ?m = "round_py (diurnal 50 16 8 (- 3 + 6 * u 2) 20 90 hour) 2"
  let ?d = "round_py (diurnal 60 0 0 (- 2 + 4 * u 3) 40 95 hour) 2"
  let ?l = "round_py (max (1 / 10) (diurnal 30 20 8 (- 5 + 10 * u 1) 5 95 hour / 100 * 2
        + (- 0.5 + u 4))) 2"
  have t: "20 \<le> ?t \<and> ?t \<le> 85" by (rule round_py_diurnal [OF 1(1) 1(2)]) simp
  have u: "5 \<le> ?u \<and> ?u \<le> 95" by (rule round_py_diurnal [OF 1(3) 1(4)]) simp
  have m: "20 \<le> ?m \<and> ?m \<le> 90" by (rule round_py_diurnal [OF 1(1) 1(5)]) simp
  have d: "40 \<le> ?d \<and> ?d \<le> 95" by (rule round_py_diurnal [OF 1(6) 1(4)]) simp
  have l: "1 / 10 \<le> ?l"
  proof -
    have "real_of_int 10 / 10 ^ 2 \<le> max (1 / 10) (diurnal 30 20 8 (- 5 + 10 * u 1) 5 95 hour
        / 100 * 2 + (- 0.5 + u 4))" by simp
    from round_py_lower [OF this] show ?thesis by simp
  qed
  show ?thesis
    unfolding synthesized_fields
    by (rule exI [of _ ?t], rule exI [of _ ?u], rule exI [of _ ?m], rule exI [of _ ?d],
        rule exI [of _ ?l])
       (rule conjI refl conjunct1 [OF t] conjunct2 [OF t] conjunct1 [OF u] conjunct2 [OF u]
          conjunct1 [OF m] conjunct2 [OF m] conjunct1 [OF d] conjunct2 [OF d] l)+
qed

lemma generate_realistic_data_model:
  "fst (generate_realistic_data g w) =
     (if ''math'' \<in> set g
      then Inr (round_py (diurnal 22 3 6 (- 0.5 + rng w (draws w)) (- 10) 50
                            (real_of_int (now_hour w))) 1,
                round_py (diurnal 45 (- 10) 6 (- 1 + 2 * rng w (Suc (draws w))) 20 80
                            (real_of_int (now_hour w))) 1)
      else Inl NameError)"
  by (simp add: generate_realistic_data_def Let_def split_beta diurnal_def)

lemma generate_realistic_data_ranges:
  assumes "fst (generate_realistic_data g w) = Inr (t, h)"
  shows "- 10 \<le> t \<and> t \<le> 50 \<and> 20 \<le> h \<and> h \<le> 80"
proof -
  have 1: "- 10 = real_of_int (- 100) / 10 ^ 1" "50 = real_of_int 500 / 10 ^ 1"
    "20 = real_of_int 200 / 10 ^ 1" "80 = real_of_int 800 / 10 ^ 1" by simp_all
  let ?t = "round_py (diurnal 22 3 6 (- 0.5 + rng w (draws w)) (- 10) 50
              (real_of_int (now_hour w))) 1"
  let ?h = "round_py (diurnal 45 (- 10) 6 (- 1 + 2 * rng w (Suc (draws w))) 20 80
              (real_of_int (now_hour w))) 1"
  have t: "- 10 \<le> ?t \<and> ?t \<le> 50" by (rule round_py_diurnal [OF 1(1) 1(2)]) simp
  have h: "20 \<le> ?h \<and> ?h \<le> 80" by (rule round_py_diurnal [OF 1(3) 1(4)]) simp
  from assms have "t = ?t \<and> h = ?h"
    by (simp add: generate_realistic_data_model split: if_splits)
  with t h show ?thesis by simp
qed

text \<open>
  Claim C9 as it stands fails on the derived load averages: at eight in the morning
  with a random source that yields 0.0 the host simulator reports a five-minute load
  average of -0.12 and a fifteen-minute load average of -0.21.
\<close>

theorem C9_negative_load_counterexample:
  "field ''loadAverage5m'' (fst (generate_realistic_health_data pi4 morning)) =
     Some (Num (- 0.12)) \<and>
   field ''loadAverage15m'' (fst (generate_realistic_health_data pi4 morning)) =
     Some (Num (- 0.21))"
  by (simp add: generate_realistic_health_data_eq synthesized_def Let_def diurnal_def
        morning_def calm_def now_hour_def round_py_def)

text \<open>
  Claim C9, amended. For every wall-clock time and every draw of the random source, of
  whatever magnitude, the sample of the host simulator is the one of the model: each of
  cpuTemperature, cpuUsage, memoryUsage and diskUsage is base + amplitude * sin((hour -
  phase) * pi / 12) + noise, clamped and then rounded, and lies in [20, 85], [5, 95],
  [20, 90] and [40, 95]; the one-minute load average is at least 0.1. The sensor
  simulator, when the name \<open>math\<close> resolves, returns the temperature and the humidity of
  the same model, and whatever it returns lies in [-10, 50] and [20, 80].
\<close>

theorem C9_clamped_metrics:
  "fst (generate_realistic_health_data self w) =
     synthesized (device_id self) (real_of_int (now_hour w)) (clock w) (utcnow_isoformat_Z w)
       (\<lambda>k. rng w (draws w + k)) \<and>
   (\<exists>t u m d l.
     field ''cpuTemperature'' (fst (generate_realistic_health_data self w)) = Some (Num t) \<and>
     20 \<le> t \<and> t \<le> 85 \<and>
     field ''cpuUsage'' (fst (generate_realistic_health_data self w)) = Some (Num u) \<and>
     5 \<le> u \<and> u \<le> 95 \<and>
     field ''memoryUsage'' (fst (generate_realistic_health_data self w)) = Some (Num m) \<and>
     20 \<le> m \<and> m \<le> 90 \<and>
     field ''diskUsage'' (fst (generate_realistic_health_data self w)) = Some (Num d) \<and>
     40 \<le> d \<and> d \<le> 95 \<and>
     field ''loadAverage1m'' (fst (generate_realistic_health_data self w)) = Some (Num l) \<and>
     1 / 10 \<le> l) \<and>
   fst (generate_realistic_data g w) =
     (if ''math'' \<in> set g
      then Inr (round_py (diurnal 22 3 6 (- 0.5 + rng w (draws w)) (- 10) 50
                            (real_of_int (now_hour w))) 1,
                round_py (diurnal 45 (- 10) 6 (- 1 + 2 * rng w (Suc (draws w))) 20 80
                            (real_of_int (now_hour w))) 1)
      else Inl NameError) \<and>
   (fst (generate_realistic_data g w) = Inr (t', h') \<longrightarrow>
      - 10 \<le> t' \<and> t' \<le> 50 \<and> 20 \<le> h' \<and> h' \<le> 80)"
proof -
  have 1: "fst (generate_realistic_health_data self w) =
     synthesized (device_id self) (real_of_int (now_hour w)) (clock w) (utcnow_isoformat_Z w)
       (\<lambda>k. rng w (draws w + k))"
    by (simp add: generate_realistic_health_data_eq)
  have 2: "fst (generate_realistic_data g w) = Inr (t', h') \<longrightarrow>
      - 10 \<le> t' \<and> t' \<le> 50 \<and> 20 \<le> h' \<and> h' \<le> 80"
    using generate_realistic_data_ranges [of g w t' h'] by (rule impI)
  show ?thesis
    unfolding 1
    by (rule conjI refl synthesized_ranges generate_realistic_data_model 2)+
qed

theorem C9_clamped_metrics_witness:
  "\<exists>t h. fst (generate_realistic_data (''math'' # module_globals) calm) = Inr (t, h) \<and>
     - 10 \<le> t \<and> t \<le> 50 \<and> 20 \<le> h \<and> h \<le> 80"
proof -
  obtain t h where e: "fst (generate_realistic_data (''math'' # module_globals) calm) = Inr (t, h)"
    by (simp add: generate_realistic_data_model)
  have b: "- 10 \<le> t \<and> t \<le> 50 \<and> 20 \<le> h \<and> h \<le> 80"
    using e C9_clamped_metrics [of pi4 calm "''math'' # module_globals" t h] by simp
  show ?thesis
    by (rule exI [of _ t], rule exI [of _ h], rule conjI [OF e b])
qed

text \<open>
  Claim C8. What a synthesizer returns depends on its surroundings only through the
  wall clock (with the time zone and the rendering of the timestamp) and the random
  source with its position: in two worlds that agree on these, the host simulator
  returns the same sample for the same object and the sensor simulator the same
  result. A call does nothing to its surroundings but advance the random source, by
  twelve draws in the host simulator and by two in the sensor simulator (by none when
  it raises).
\<close>

theorem C8_synthesis_deterministic:
  "(clock w1 = clock w2 \<and> utcoffset w1 = utcoffset w2 \<and> isoformat w1 = isoformat w2 \<and>
    rng w1 = rng w2 \<and> draws w1 = draws w2 \<longrightarrow>
      fst (generate_realistic_health_data self w1) =
        fst (generate_realistic_health_data self w2) \<and>
      fst (generate_realistic_data g w1) = fst (generate_realistic_data g w2)) \<and>
   snd (generate_realistic_health_data self w) = w\<lparr>draws := draws w + 12\<rparr> \<and>
   snd (generate_realistic_data g w) =
     (if ''math'' \<in> set g then w\<lparr>draws := draws w + 2\<rparr> else w)"
proof (intro conjI impI)
  assume a: "clock w1 = clock w2 \<and> utcoffset w1 = utcoffset w2 \<and>
    isoformat w1 = isoformat w2 \<and> rng w1 = rng w2 \<and> draws w1 = draws w2"
  then show "fst (generate_realistic_health_data self w1) =
      fst (generate_realistic_health_data self w2)"
    by (simp add: generate_realistic_health_data_eq now_hour_def utcnow_isoformat_Z_def)
  from a show "fst (generate_realistic_data g w1) = fst (generate_realistic_data g w2)"
    by (simp add: generate_realistic_data_model now_hour_def)
next
  show "snd (generate_realistic_health_data self w) = w\<lparr>draws := draws w + 12\<rparr>"
    by (simp add: generate_realistic_health_data_eq)
  show "snd (generate_realistic_data g w) =
      (if ''math'' \<in> set g then w\<lparr>draws := draws w + 2\<rparr> else w)"
    by (simp add: generate_realistic_data_def Let_def split_beta)
qed

theorem C8_synthesis_deterministic_witness:
  "clock calm = clock noisy \<and> rng calm = rng noisy \<and> draws calm = draws noisy \<and>
   api calm \<noteq> api noisy \<and> trace calm \<noteq> trace noisy \<and>
   fst (generate_realistic_health_data pi4 calm) =
     fst (generate_realistic_health_data pi4 noisy) \<and>
   fst (generate_realistic_data (''math'' # module_globals) calm) =
     fst (generate_realistic_data (''math'' # module_globals) noisy)"
proof -
  have a: "clock calm = clock noisy \<and> utcoffset calm = utcoffset noisy \<and>
    isoformat calm = isoformat noisy \<and> rng calm = rng noisy \<and> draws calm = draws noisy"
    by (simp add: noisy_def)
  have b: "api calm \<noteq> api noisy"
  proof
    assume "api calm = api noisy"
    then have "api calm 0 = api noisy 0" by simp
    then show False by (simp add: noisy_def calm_def)
  qed
  have c: "trace calm \<noteq> trace noisy" by (simp add: noisy_def calm_def)
  show ?thesis
    using a b c C8_synthesis_deterministic [of calm noisy pi4 "''math'' # module_globals" calm]
    by simp
qed

end
